theory Spec2Isabelle
  imports Complex_Main "HOL-Library.Monad_Syntax"
begin

section \<open>Numbers and data model\<close>

text \<open>
  The numerical engine of the peak-fitting application (lib/peakFitting.ts and
  lib/levenbergMarquardt.ts) is embedded over exact real arithmetic: a JavaScript
  \<^verbatim>\<open>number\<close> is a \<^typ>\<open>real\<close>, array indices and iteration counts are
  \<^typ>\<open>nat\<close>. Rounding, NaN and the infinities of IEEE doubles are outside the model;
  where the source can only produce them by dividing by zero, the theorems carry the
  hypothesis that excludes it.
\<close>

record DataPoint =
  pt_x :: real
  pt_y :: real

datatype Profile = Gaussian | Lorentzian | Voigt

record PeakComponent =
  pc_id :: int
  pc_profile :: Profile
  pc_center :: real
  pc_amplitude :: real
  pc_width :: real
  pc_weight :: real
  pc_sigma :: "real option"
  pc_gamma :: "real option"

text \<open>
  \<^verbatim>\<open>v || d\<close> on an optional number: the default \<open>d\<close> is taken when the value is
  absent or zero.
\<close>

definition num_or :: "real option \<Rightarrow> real \<Rightarrow> real" where
  "num_or v d = (case v of None \<Rightarrow> d | Some a \<Rightarrow> if a = 0 then d else a)"

definition nat_or :: "nat option \<Rightarrow> nat \<Rightarrow> nat" where
  "nat_or v d = (case v of None \<Rightarrow> d | Some a \<Rightarrow> if a = 0 then d else a)"

text \<open>\<^verbatim>\<open>v ?? d\<close>: the default is taken only when the value is absent.\<close>

definition num_nullish :: "real option \<Rightarrow> real \<Rightarrow> real" where
  "num_nullish v d = (case v of None \<Rightarrow> d | Some a \<Rightarrow> a)"

section \<open>Peak profile model\<close>

definition gaussian :: "real \<Rightarrow> real \<Rightarrow> real \<Rightarrow> real \<Rightarrow> real" where
  "gaussian x center amplitude sigma =
     (let exponent = - ((x - center) ^ 2) / (2 * sigma ^ 2)
      in amplitude * exp exponent)"

definition lorentzian :: "real \<Rightarrow> real \<Rightarrow> real \<Rightarrow> real \<Rightarrow> real" where
  "lorentzian x center amplitude gamma =
     amplitude * (gamma ^ 2) / ((x - center) ^ 2 + gamma ^ 2)"

definition voigt :: "real \<Rightarrow> real \<Rightarrow> real \<Rightarrow> real \<Rightarrow> real \<Rightarrow> real" where
  "voigt x center amplitude sigma gamma =
     (let eta = gamma / (sigma + gamma);
          g = gaussian x center 1 sigma;
          l = lorentzian x center 1 gamma
      in amplitude * (eta * l + (1 - eta) * g))"

definition calculatePeak :: "real \<Rightarrow> PeakComponent \<Rightarrow> real" where
  "calculatePeak x component =
     (let sigma = num_or (pc_sigma component) (pc_width component / (2355 / 1000));
          gamma = num_or (pc_gamma component) (pc_width component / 2);
          effectiveAmp = pc_amplitude component * pc_weight component
      in case pc_profile component of
           Gaussian \<Rightarrow> gaussian x (pc_center component) effectiveAmp sigma
         | Lorentzian \<Rightarrow> lorentzian x (pc_center component) effectiveAmp gamma
         | Voigt \<Rightarrow> voigt x (pc_center component) effectiveAmp sigma gamma)"

section \<open>Rolling-ball baseline\<close>

text \<open>
  The inner loop of \<^verbatim>\<open>rollingBallBaseline\<close>: \<^verbatim>\<open>minVal\<close> starts at
  \<^verbatim>\<open>Infinity\<close> (here \<open>None\<close>) and takes every smaller \<^verbatim>\<open>y[j]\<close> for
  \<open>j\<close> from \<open>start\<close> up to, not including, \<open>stop\<close>.
\<close>

definition windowMin :: "real list \<Rightarrow> nat \<Rightarrow> nat \<Rightarrow> real option" where
  "windowMin y start stop =
     fold (\<lambda>j minVal. case minVal of
                          None \<Rightarrow> Some (y ! j)
                        | Some m \<Rightarrow> if y ! j < m then Some (y ! j) else Some m)
          [start..<stop] None"

text \<open>
  The first loop: the minimum over the index window \<open>[i - halfWindow, i + halfWindow]\<close>
  clipped to the array. A window is empty only for a negative \<open>halfWindow\<close>; the source
  then stores \<^verbatim>\<open>Infinity\<close>, which the real-number model leaves unspecified.
\<close>

definition rb_envelope :: "real list \<Rightarrow> int \<Rightarrow> real list" where
  "rb_envelope y halfWindow =
     map (\<lambda>i. let start = nat (max 0 (int i - halfWindow));
                   stop = nat (min (int (length y)) (int i + halfWindow + 1))
               in case windowMin y start stop of Some m \<Rightarrow> m | None \<Rightarrow> undefined)
         [0..<length y]"

text \<open>
  The second loop: three passes, each writing into \<^verbatim>\<open>smoothed\<close> the mean of three
  neighbouring entries of \<^verbatim>\<open>baseline\<close> (the array the source reads in every pass).
\<close>

definition rb_smooth :: "real list \<Rightarrow> real list" where
  "rb_smooth baseline =
     fold (\<lambda>pass smoothed.
             fold (\<lambda>i sm. sm[i := (baseline ! (i - 1) + baseline ! i + baseline ! (i + 1)) / 3])
                  [1..<length baseline - 1] smoothed)
          [0..<3] baseline"

definition rollingBallBaseline :: "DataPoint list \<Rightarrow> real \<Rightarrow> DataPoint list" where
  "rollingBallBaseline data radius =
     (let n = length data in
      if n < 3 then map (\<lambda>d. \<lparr>pt_x = pt_x d, pt_y = 0\<rparr>) data
      else
        let y = map pt_y data;
            halfWindow = \<lceil>radius\<rceil>;
            baseline = rb_envelope y halfWindow;
            smoothed = rb_smooth baseline
        in map (\<lambda>i. \<lparr>pt_x = pt_x (data ! i), pt_y = smoothed ! i\<rparr>) [0..<n])"

text \<open>
  The rolling-ball baseline as the specification words it: the same window minimum,
  followed by three successive passes of a 3-point moving average, each pass averaging
  the output of the previous one and leaving the two end points unchanged.
\<close>

definition movingAverage3 :: "real list \<Rightarrow> real list" where
  "movingAverage3 v =
     map (\<lambda>i. if 1 \<le> i \<and> i + 1 < length v then (v ! (i - 1) + v ! i + v ! (i + 1)) / 3
               else v ! i)
         [0..<length v]"

definition rollingBall_spec :: "DataPoint list \<Rightarrow> nat \<Rightarrow> real list" where
  "rollingBall_spec data r =
     movingAverage3 (movingAverage3 (movingAverage3 (rb_envelope (map pt_y data) (int r))))"

section \<open>Manual baseline\<close>

datatype Interp = LinearInterp | CubicInterp

text \<open>
  The segment search shared by both interpolators: the first index \<open>i\<close> of the list
  with \<open>px[i] \<le> x \<le> px[i+1]\<close> decides the value; \<open>None\<close> when the loop runs out.
\<close>

fun findSegment :: "real list \<Rightarrow> real \<Rightarrow> nat list \<Rightarrow> nat option" where
  "findSegment px x [] = None"
| "findSegment px x (i # rest) =
     (if px ! i \<le> x \<and> x \<le> px ! (i + 1) then Some i else findSegment px x rest)"

definition linearInterpolate :: "real list \<Rightarrow> real list \<Rightarrow> real \<Rightarrow> real" where
  "linearInterpolate px py x =
     (let n = length px in
      if x \<le> px ! 0 then py ! 0
      else if px ! (n - 1) \<le> x then py ! (n - 1)
      else case findSegment px x [0..<n - 1] of
             Some i \<Rightarrow>
               (let t = (x - px ! i) / (px ! (i + 1) - px ! i)
                in py ! i + t * (py ! (i + 1) - py ! i))
           | None \<Rightarrow> py ! (n - 1))"

text \<open>
  The forward sweep of the tridiagonal solve (arrays \<^verbatim>\<open>l\<close>, \<^verbatim>\<open>mu\<close>,
  \<^verbatim>\<open>z\<close>) and the backward sweep (arrays \<^verbatim>\<open>c\<close>, \<^verbatim>\<open>b\<close>,
  \<^verbatim>\<open>d\<close>) of the natural cubic spline, one loop body each.
\<close>

definition splineForward ::
  "real list \<Rightarrow> real list \<Rightarrow> real list \<Rightarrow> nat \<Rightarrow>
   real list \<times> real list \<times> real list \<Rightarrow> real list \<times> real list \<times> real list" where
  "splineForward px h alpha i st =
     (case st of (l, mu, z) \<Rightarrow>
        let li = 2 * (px ! (i + 1) - px ! (i - 1)) - h ! (i - 1) * mu ! (i - 1);
            l' = l[i := li];
            mu' = mu[i := h ! i / li];
            z' = z[i := (alpha ! i - h ! (i - 1) * z ! (i - 1)) / li]
        in (l', mu', z'))"

definition splineBackward ::
  "real list \<Rightarrow> real list \<Rightarrow> real list \<Rightarrow> real list \<Rightarrow> nat \<Rightarrow>
   real list \<times> real list \<times> real list \<Rightarrow> real list \<times> real list \<times> real list" where
  "splineBackward py h mu z j st =
     (case st of (c, b, d) \<Rightarrow>
        let cj = z ! j - mu ! j * c ! (j + 1);
            c' = c[j := cj];
            b' = b[j := (py ! (j + 1) - py ! j) / h ! j - h ! j * (c' ! (j + 1) + 2 * cj) / 3];
            d' = d[j := (c' ! (j + 1) - cj) / (3 * h ! j)]
        in (c', b', d'))"

definition cubicSplineInterpolate :: "real list \<Rightarrow> real list \<Rightarrow> real \<Rightarrow> real" where
  "cubicSplineInterpolate px py x =
     (let n = length px in
      if n < 3 then linearInterpolate px py x
      else if x \<le> px ! 0 then
        (let slope = (py ! 1 - py ! 0) / (px ! 1 - px ! 0)
         in py ! 0 + slope * (x - px ! 0))
      else if px ! (n - 1) \<le> x then
        (let slope = (py ! (n - 1) - py ! (n - 2)) / (px ! (n - 1) - px ! (n - 2))
         in py ! (n - 1) + slope * (x - px ! (n - 1)))
      else
        let h = map (\<lambda>i. px ! (i + 1) - px ! i) [0..<n - 1];
            alpha = map (\<lambda>i. if 1 \<le> i \<and> i < n - 1
                               then (3 / h ! i) * (py ! (i + 1) - py ! i)
                                    - (3 / h ! (i - 1)) * (py ! i - py ! (i - 1))
                               else 0) [0..<n];
            (l, mu, z) = fold (splineForward px h alpha) [1..<n - 1]
                              (replicate n 1, replicate n 0, replicate n 0);
            (c, b, d) = fold (splineBackward py h mu z) (rev [0..<n - 1])
                             (replicate n 0, replicate (n - 1) 0, replicate (n - 1) 0)
        in case findSegment px x [0..<n - 1] of
             Some i \<Rightarrow>
               (let dx = x - px ! i
                in py ! i + b ! i * dx + c ! i * dx * dx + d ! i * dx * dx * dx)
           | None \<Rightarrow> py ! (n - 1))"

text \<open>
  \<^verbatim>\<open>[...points].sort((a, b) => a.x - b.x)\<close> is a stable sort by x, as is
  \<^const>\<open>sort_key\<close>.
\<close>

definition manualBaseline :: "DataPoint list \<Rightarrow> DataPoint list \<Rightarrow> Interp \<Rightarrow> DataPoint list" where
  "manualBaseline data points interp =
     (if length points < 2 then map (\<lambda>d. \<lparr>pt_x = pt_x d, pt_y = 0\<rparr>) data
      else
        let sortedPoints = sort_key pt_x points;
            px = map pt_x sortedPoints;
            py = map pt_y sortedPoints
        in map (\<lambda>d. \<lparr>pt_x = pt_x d,
                       pt_y = (if interp = CubicInterp \<and> 3 \<le> length sortedPoints
                               then cubicSplineInterpolate px py (pt_x d)
                               else linearInterpolate px py (pt_x d))\<rparr>) data)"

section \<open>AsLS baseline: Whittaker smoother and pentadiagonal solver\<close>

text \<open>
  In the pentadiagonal solver every division of the source is written as a checked
  division: \<open>None\<close> stands for a division by zero (which in the source would yield a
  non-finite number). The functions built on the solver thread this result through.
\<close>

definition checkedDiv :: "real \<Rightarrow> real \<Rightarrow> real option" where
  "checkedDiv u v = (if v = 0 then None else Some (u / v))"

fun foldOption :: "('a \<Rightarrow> 's \<Rightarrow> 's option) \<Rightarrow> 'a list \<Rightarrow> 's \<Rightarrow> 's option" where
  "foldOption f [] s = Some s"
| "foldOption f (i # rest) s = (case f i s of None \<Rightarrow> None | Some s' \<Rightarrow> foldOption f rest s')"

text \<open>\<^verbatim>\<open>if (Math.abs(diagD[i]) < 1e-14) diagD[i] = 1e-14\<close>\<close>

definition clampDiag :: "real \<Rightarrow> real" where
  "clampDiag v = (if \<bar>v\<bar> < 1 / 10 ^ 14 then 1 / 10 ^ 14 else v)"

record Factor =
  diagD :: "real list"
  subL1 :: "real list"
  subL2 :: "real list"

text \<open>The factorisation before the loop: rows 0 and 1.\<close>

definition pentaInit ::
  "real list \<Rightarrow> real list \<Rightarrow> real list \<Rightarrow> real list \<Rightarrow> nat \<Rightarrow> Factor option" where
  "pentaInit b c d e n =
     (let diagD0 = (replicate n 0)[0 := clampDiag (c ! 0)] in
      do {
        l10 \<leftarrow> checkedDiv (d ! 0) (diagD0 ! 0);
        l20 \<leftarrow> checkedDiv (e ! 0) (diagD0 ! 0);
        let subL1_0 = (replicate n 0)[0 := l10];
        let subL2_0 = (replicate n 0)[0 := l20];
        let diagD1 = diagD0[1 := clampDiag (c ! 1 - b ! 1 * subL1_0 ! 0)];
        l11 \<leftarrow> checkedDiv (d ! 1 - b ! 1 * subL2_0 ! 0) (diagD1 ! 1);
        l21 \<leftarrow> checkedDiv (e ! 1) (diagD1 ! 1);
        Some \<lparr>diagD = diagD1, subL1 = subL1_0[1 := l11], subL2 = subL2_0[1 := l21]\<rparr>
      })"

text \<open>One iteration \<open>i \<ge> 2\<close> of the factorisation loop.\<close>

definition pentaStep ::
  "real list \<Rightarrow> real list \<Rightarrow> real list \<Rightarrow> real list \<Rightarrow> real list \<Rightarrow> nat \<Rightarrow> nat \<Rightarrow>
   Factor \<Rightarrow> Factor option" where
  "pentaStep a b c d e n i st =
     do {
       li2 \<leftarrow> checkedDiv (a ! i) (diagD st ! (i - 2));
       let tmp = b ! i - li2 * diagD st ! (i - 2) * subL1 st ! (i - 2);
       li1 \<leftarrow> checkedDiv tmp (diagD st ! (i - 1));
       let dD = (diagD st)[i := clampDiag (c ! i - li2 * diagD st ! (i - 2) * subL2 st ! (i - 2)
                                               - li1 * diagD st ! (i - 1) * subL1 st ! (i - 1))];
       s1 \<leftarrow> (if i < n - 1
               then do { v \<leftarrow> checkedDiv (d ! i - li1 * dD ! (i - 1) * subL2 st ! (i - 1)) (dD ! i);
                         Some ((subL1 st)[i := v]) }
               else Some (subL1 st));
       s2 \<leftarrow> (if i < n - 2
               then do { v \<leftarrow> checkedDiv (e ! i) (dD ! i); Some ((subL2 st)[i := v]) }
               else Some (subL2 st));
       Some \<lparr>diagD = dD, subL1 = s1[i - 1 := li1], subL2 = s2[i - 2 := li2]\<rparr>
     }"

definition pentaFactor ::
  "real list \<Rightarrow> real list \<Rightarrow> real list \<Rightarrow> real list \<Rightarrow> real list \<Rightarrow> nat \<Rightarrow> Factor option" where
  "pentaFactor a b c d e n =
     do { st \<leftarrow> pentaInit b c d e n; foldOption (pentaStep a b c d e n) [2..<n] st }"

text \<open>Forward substitution, scaling by the diagonal, back substitution.\<close>

definition pentaForwardSubst :: "Factor \<Rightarrow> real list \<Rightarrow> nat \<Rightarrow> real list" where
  "pentaForwardSubst st rhs n =
     (let z0 = (replicate n 0)[0 := rhs ! 0];
          z1 = z0[1 := rhs ! 1 - subL1 st ! 0 * z0 ! 0]
      in fold (\<lambda>i z. z[i := rhs ! i - subL2 st ! (i - 2) * z ! (i - 2)
                                    - subL1 st ! (i - 1) * z ! (i - 1)])
              [2..<n] z1)"

definition pentaScale :: "Factor \<Rightarrow> real list \<Rightarrow> nat \<Rightarrow> real list option" where
  "pentaScale st z n =
     foldOption (\<lambda>i z. do { v \<leftarrow> checkedDiv (z ! i) (diagD st ! i); Some (z[i := v]) }) [0..<n] z"

definition pentaBackSubst :: "Factor \<Rightarrow> real list \<Rightarrow> nat \<Rightarrow> real list" where
  "pentaBackSubst st z n =
     (let x0 = (replicate n 0)[n - 1 := z ! (n - 1)];
          x1 = x0[n - 2 := z ! (n - 2) - subL1 st ! (n - 2) * x0 ! (n - 1)]
      in fold (\<lambda>i x. x[i := z ! i - subL1 st ! i * x ! (i + 1) - subL2 st ! i * x ! (i + 2)])
              (rev [0..<n - 2]) x1)"

definition solvePentadiagonal ::
  "real list \<Rightarrow> real list \<Rightarrow> real list \<Rightarrow> real list \<Rightarrow> real list \<Rightarrow> real list \<Rightarrow>
   real list option" where
  "solvePentadiagonal a b c d e rhs =
     (let n = length rhs in
      if n < 3 then Some rhs
      else do {
        st \<leftarrow> pentaFactor a b c d e n;
        z \<leftarrow> pentaScale st (pentaForwardSubst st rhs n) n;
        Some (pentaBackSubst st z n)
      })"

text \<open>
  The five bands of \<open>W + lambda * D2\<^sup>T * D2\<close>, row by row, with the source's order of
  the boundary cases.
\<close>

definition bandA :: "nat \<Rightarrow> real \<Rightarrow> nat \<Rightarrow> real" where
  "bandA n lambda i =
     (if i = 0 then 0 else if i = 1 then 0 else if i = n - 2 then lambda
      else if i = n - 1 then lambda else lambda)"

definition bandB :: "nat \<Rightarrow> real \<Rightarrow> nat \<Rightarrow> real" where
  "bandB n lambda i =
     (if i = 0 then 0 else if i = 1 then - 2 * lambda else if i = n - 2 then - 4 * lambda
      else if i = n - 1 then - 2 * lambda else - 4 * lambda)"

definition bandC :: "nat \<Rightarrow> real list \<Rightarrow> real \<Rightarrow> nat \<Rightarrow> real" where
  "bandC n w lambda i =
     (if i = 0 then w ! i + lambda else if i = 1 then w ! i + 5 * lambda
      else if i = n - 2 then w ! i + 5 * lambda
      else if i = n - 1 then w ! i + lambda else w ! i + 6 * lambda)"

definition bandD :: "nat \<Rightarrow> real \<Rightarrow> nat \<Rightarrow> real" where
  "bandD n lambda i =
     (if i = 0 then - 2 * lambda else if i = 1 then - 4 * lambda else if i = n - 2 then - 2 * lambda
      else if i = n - 1 then 0 else - 4 * lambda)"

definition bandE :: "nat \<Rightarrow> real \<Rightarrow> nat \<Rightarrow> real" where
  "bandE n lambda i =
     (if i = 0 then lambda else if i = 1 then lambda else if i = n - 2 then 0
      else if i = n - 1 then 0 else lambda)"

definition whittakerSmooth :: "real list \<Rightarrow> real list \<Rightarrow> real \<Rightarrow> real list option" where
  "whittakerSmooth y w lambda =
     (let n = length y in
      if n < 3 then Some y
      else
        let a = map (bandA n lambda) [0..<n];
            b = map (bandB n lambda) [0..<n];
            c = map (bandC n w lambda) [0..<n];
            d = map (bandD n lambda) [0..<n];
            e = map (bandE n lambda) [0..<n];
            rhs = map (\<lambda>i. w ! i * y ! i) [0..<n]
        in solvePentadiagonal a b c d e rhs)"

text \<open>
  The reweighting loop of \<^verbatim>\<open>aslsBaseline\<close>: \<open>iterations\<close> rounds, each smoothing
  with the current weights and then resetting every weight to \<open>p\<close> or \<open>1 - p\<close>.
\<close>

fun aslsIterate ::
  "real list \<Rightarrow> real \<Rightarrow> real \<Rightarrow> nat \<Rightarrow> real list \<times> real list \<Rightarrow> (real list \<times> real list) option" where
  "aslsIterate y lambda p 0 zw = Some zw"
| "aslsIterate y lambda p (Suc k) zw =
     (case whittakerSmooth y (snd zw) lambda of
        None \<Rightarrow> None
      | Some z \<Rightarrow>
          aslsIterate y lambda p k
            (z, map (\<lambda>i. if z ! i < y ! i then p else 1 - p) [0..<length y]))"

definition aslsBaseline ::
  "DataPoint list \<Rightarrow> real \<Rightarrow> real \<Rightarrow> nat \<Rightarrow> DataPoint list option" where
  "aslsBaseline data lambda p iterations =
     (let n = length data in
      if n < 3 then Some (map (\<lambda>d. \<lparr>pt_x = pt_x d, pt_y = 0\<rparr>) data)
      else
        let y = map pt_y data in
        case aslsIterate y lambda p iterations (y, replicate n 1) of
          None \<Rightarrow> None
        | Some (z, w) \<Rightarrow> Some (map (\<lambda>i. \<lparr>pt_x = pt_x (data ! i), pt_y = z ! i\<rparr>) [0..<n]))"

text \<open>
  The invariant of the factorisation loop before iteration \<open>i\<close>: the three work arrays
  have length \<open>n\<close> and every diagonal entry written so far has magnitude at least 1e-14.
\<close>

definition factorInv :: "nat \<Rightarrow> nat \<Rightarrow> Factor \<Rightarrow> bool" where
  "factorInv n i st \<longleftrightarrow>
     length (diagD st) = n \<and> length (subL1 st) = n \<and> length (subL2 st) = n \<and>
     (\<forall>k<i. 1 / 10 ^ 14 \<le> \<bar>diagD st ! k\<bar>)"

section \<open>Linear and polynomial baselines\<close>

definition zeroBaseline :: "DataPoint list \<Rightarrow> DataPoint list" where
  "zeroBaseline data = map (\<lambda>d. \<lparr>pt_x = pt_x d, pt_y = 0\<rparr>) data"

definition linearBaseline :: "DataPoint list \<Rightarrow> real option \<Rightarrow> real option \<Rightarrow> DataPoint list" where
  "linearBaseline data slope intercept =
     (if length data < 2 then zeroBaseline data
      else
        let (m, b) =
              (case (slope, intercept) of
                 (Some s, Some c) \<Rightarrow> (s, c)
               | _ \<Rightarrow>
                   let x1 = pt_x (data ! 0); y1 = pt_y (data ! 0);
                       x2 = pt_x (data ! (length data - 1)); y2 = pt_y (data ! (length data - 1));
                       m = (y2 - y1) / (x2 - x1)
                   in (m, y1 - m * x1))
        in map (\<lambda>d. \<lparr>pt_x = pt_x d, pt_y = m * pt_x d + b\<rparr>) data)"

text \<open>
  Gaussian elimination with partial pivoting, as both linear solvers of the source do it:
  the pivot search, the row swap and the elimination of one row.
\<close>

definition findPivot :: "real list list \<Rightarrow> nat \<Rightarrow> nat \<Rightarrow> nat" where
  "findPivot a i n =
     fold (\<lambda>k maxRow. if \<bar>a ! k ! i\<bar> > \<bar>a ! maxRow ! i\<bar> then k else maxRow) [i + 1..<n] i"

definition swapRows :: "'a list \<Rightarrow> nat \<Rightarrow> nat \<Rightarrow> 'a list" where
  "swapRows a i maxRow = (a[i := a ! maxRow])[maxRow := a ! i]"

text \<open>\<^verbatim>\<open>for (j = i; j < m; j++) a[k][j] -= factor * a[i][j]\<close>\<close>

definition eliminateRow :: "real list \<Rightarrow> real list \<Rightarrow> real \<Rightarrow> nat \<Rightarrow> nat \<Rightarrow> real list" where
  "eliminateRow rowK rowI factor i m =
     fold (\<lambda>j row. row[j := row ! j - factor * rowI ! j]) [i..<m] rowK"

definition lsForwardStep :: "nat \<Rightarrow> nat \<Rightarrow> real list list \<times> real list \<Rightarrow> real list list \<times> real list" where
  "lsForwardStep n i ab =
     (case ab of (a0, b0) \<Rightarrow>
        let maxRow = findPivot a0 i n;
            a1 = swapRows a0 i maxRow;
            b1 = swapRows b0 i maxRow
        in fold (\<lambda>k (a, b).
                   let factor = a ! k ! i / a ! i ! i
                   in (a[k := eliminateRow (a ! k) (a ! i) factor i n],
                       b[k := b ! k - factor * b ! i]))
                [i + 1..<n] (a1, b1))"

definition lsBackSubst :: "nat \<Rightarrow> real list list \<Rightarrow> real list \<Rightarrow> real list" where
  "lsBackSubst n a b =
     fold (\<lambda>i x.
             let s = fold (\<lambda>j s. s - a ! i ! j * x ! j) [i + 1..<n] (b ! i)
             in x[i := s / a ! i ! i])
          (rev [0..<n]) (replicate n 0)"

definition solveLinearSystem :: "real list list \<Rightarrow> real list \<Rightarrow> real list" where
  "solveLinearSystem matrix vector =
     (let n = length vector;
          (a, b) = fold (lsForwardStep n) [0..<n] (matrix, vector)
      in lsBackSubst n a b)"

text \<open>
  \<^verbatim>\<open>Math.min(...v)\<close> and \<^verbatim>\<open>Math.max(...v)\<close> of a non-empty array.
\<close>

definition listMin :: "real list \<Rightarrow> real" where
  "listMin v = fold min (tl v) (hd v)"

definition listMax :: "real list \<Rightarrow> real" where
  "listMax v = fold max (tl v) (hd v)"

definition polyEval :: "real list \<Rightarrow> nat \<Rightarrow> real \<Rightarrow> real" where
  "polyEval coeffs degree x = fold (\<lambda>i y. y + coeffs ! i * x ^ i) [0..<degree + 1] 0"

text \<open>
  The sigma-clipping loop of \<^verbatim>\<open>polynomialBaseline\<close>. One iteration takes the
  inclusion mask (\<^verbatim>\<open>mask\<close>) and the last coefficients, and either leaves the loop
  (\<^verbatim>\<open>break\<close>) with the coefficients computed so far or continues with a new mask.
\<close>

datatype 's LoopStep = Break 's | Continue 's

definition polyFitStep ::
  "nat \<Rightarrow> real \<Rightarrow> real list \<Rightarrow> real list \<Rightarrow> bool list \<times> real list \<Rightarrow>
   (bool list \<times> real list) LoopStep" where
  "polyFitStep degree sigma xNorm yValues st =
     (case st of (inclMask, coeffs) \<Rightarrow>
      let n = length xNorm;
          kept = filter (\<lambda>i. inclMask ! i) [0..<n];
          maskedX = map (\<lambda>i. xNorm ! i) kept;
          maskedY = map (\<lambda>i. yValues ! i) kept
      in if length maskedX < degree + 1 then Break (inclMask, coeffs)
         else
           let matrix = map (\<lambda>i. map (\<lambda>j. fold (\<lambda>x s. s + x ^ (i + j)) maskedX 0)
                                      [0..<degree + 1]) [0..<degree + 1];
               vector = map (\<lambda>i. fold (\<lambda>idx s. s + (maskedX ! idx) ^ i * maskedY ! idx)
                                        [0..<length maskedX] 0) [0..<degree + 1];
               coeffs' = solveLinearSystem matrix vector;
               baseline = map (polyEval coeffs' degree) xNorm;
               residuals = map (\<lambda>i. yValues ! i - baseline ! i) [0..<length yValues];
               maskedResiduals = map (\<lambda>i. residuals ! i)
                                     (filter (\<lambda>i. inclMask ! i) [0..<length residuals]);
               std = sqrt (fold (\<lambda>r s. s + r * r) maskedResiduals 0
                           / real (length maskedResiduals));
               threshold = sigma * std;
               newMask = map (\<lambda>r. r < threshold) residuals
           in if newMask = inclMask then Break (inclMask, coeffs')
              else Continue (newMask, coeffs'))"

text \<open>A \<^verbatim>\<open>for\<close> loop with \<^verbatim>\<open>break\<close>: \<open>fuel\<close> is the number of iterations left.\<close>

fun loopWithBreak :: "('s \<Rightarrow> 's LoopStep) \<Rightarrow> nat \<Rightarrow> 's \<Rightarrow> 's" where
  "loopWithBreak body 0 s = s"
| "loopWithBreak body (Suc fuel) s =
     (case body s of Break s' \<Rightarrow> s' | Continue s' \<Rightarrow> loopWithBreak body fuel s')"

definition polynomialBaseline :: "DataPoint list \<Rightarrow> nat \<Rightarrow> nat \<Rightarrow> real \<Rightarrow> DataPoint list" where
  "polynomialBaseline data degree maxIter sigma =
     (if length data < degree + 1 then linearBaseline data None None
      else
        let n = length data;
            xValues = map pt_x data;
            yValues = map pt_y data;
            xMin = listMin xValues;
            xMax = listMax xValues;
            xRange = (if xMax - xMin = 0 then 1 else xMax - xMin);
            xNorm = map (\<lambda>x. (x - xMin) / xRange) xValues;
            coeffs = snd (loopWithBreak (polyFitStep degree sigma xNorm yValues) maxIter
                            (replicate n True, []))
        in map (\<lambda>d. \<lparr>pt_x = pt_x d, pt_y = polyEval coeffs degree ((pt_x d - xMin) / xRange)\<rparr>)
               data)"

section \<open>Shirley baseline\<close>

definition areaAbove :: "real list \<Rightarrow> real list \<Rightarrow> nat \<Rightarrow> nat \<Rightarrow> real" where
  "areaAbove y baseline i n = fold (\<lambda>j s. s + max 0 (y ! j - baseline ! j)) [i..<n] 0"

definition shirleyStep :: "real list \<Rightarrow> real \<Rightarrow> real list \<Rightarrow> real list LoopStep" where
  "shirleyStep y tolerance baseline =
     (let n = length y;
          yStart = y ! 0;
          yEnd = y ! (n - 1);
          totalArea = areaAbove y baseline 0 n
      in if totalArea = 0 then Break baseline
         else
           let newBaseline = map (\<lambda>i. yEnd + (yStart - yEnd) * (areaAbove y baseline i n / totalArea))
                                 [0..<n];
               maxChange = fold (\<lambda>i m. max m \<bar>newBaseline ! i - baseline ! i\<bar>) [0..<n] 0
           in if maxChange < tolerance * (\<bar>yStart - yEnd\<bar> + 1 / 10 ^ 10) then Break newBaseline
              else Continue newBaseline)"

definition shirleyBaseline :: "DataPoint list \<Rightarrow> nat \<Rightarrow> real \<Rightarrow> DataPoint list" where
  "shirleyBaseline data maxIterations tolerance =
     (let n = length data in
      if n < 3 then zeroBaseline data
      else
        let y = map pt_y data;
            yStart = y ! 0;
            yEnd = y ! (n - 1);
            baseline = map (\<lambda>i. let t = real i / real (n - 1)
                                  in yStart * (1 - t) + yEnd * t) [0..<n];
            final = loopWithBreak (shirleyStep y tolerance) maxIterations baseline
        in map (\<lambda>i. \<lparr>pt_x = pt_x (data ! i), pt_y = final ! i\<rparr>) [0..<n])"

section \<open>Baseline selection and calc-range extension\<close>

datatype Method = NoBaseline | LinearM | PolynomialM | AslsM | RollingBallM | ShirleyM | ManualM

text \<open>
  The fields of \<^verbatim>\<open>BaselineOptions\<close> that the numerical code reads; an optional
  field is an \<open>option\<close>. \<open>bo_coeffs\<close> is the untyped \<^verbatim>\<open>(options as any).coeffs\<close>.
  Degree and iteration counts are natural numbers, as the sliders of the application supply
  them.
\<close>

record BaselineOptions =
  bo_method :: Method
  bo_autoBaseline :: "bool option"
  bo_optimizeSimultaneously :: "bool option"
  bo_degree :: "nat option"
  bo_lambda :: "real option"
  bo_p :: "real option"
  bo_radius :: "real option"
  bo_shirleyIterations :: "nat option"
  bo_shirleyTolerance :: "real option"
  bo_slope :: "real option"
  bo_intercept :: "real option"
  bo_calcRangeMin :: "real option"
  bo_calcRangeMax :: "real option"
  bo_manualPoints :: "DataPoint list option"
  bo_manualInterp :: "Interp option"
  bo_coeffs :: "real list option"

definition inRange :: "real option \<Rightarrow> real option \<Rightarrow> real \<Rightarrow> bool" where
  "inRange calcMin calcMax x \<longleftrightarrow>
     (case calcMin of None \<Rightarrow> True | Some lo \<Rightarrow> lo \<le> x) \<and>
     (case calcMax of None \<Rightarrow> True | Some hi \<Rightarrow> x \<le> hi)"

text \<open>The indices of the samples inside the calc-range, in ascending order.\<close>

definition inRangeIndices :: "real option \<Rightarrow> real option \<Rightarrow> DataPoint list \<Rightarrow> nat list" where
  "inRangeIndices calcMin calcMax data =
     filter (\<lambda>i. inRange calcMin calcMax (pt_x (data ! i))) [0..<length data]"

text \<open>The \<^verbatim>\<open>switch\<close> on the method, applied to the data of the calc-range.\<close>

definition methodBaseline :: "DataPoint list \<Rightarrow> BaselineOptions \<Rightarrow> DataPoint list" where
  "methodBaseline rangeData options =
     (case bo_method options of
        LinearM \<Rightarrow>
          (if bo_autoBaseline options = Some False \<and> bo_slope options \<noteq> None
              \<and> bo_intercept options \<noteq> None
           then linearBaseline rangeData (bo_slope options) (bo_intercept options)
           else linearBaseline rangeData None None)
      | PolynomialM \<Rightarrow>
          (case (bo_autoBaseline options, bo_coeffs options) of
             (Some False, Some coeffs) \<Rightarrow>
               map (\<lambda>d. \<lparr>pt_x = pt_x d,
                          pt_y = fold (\<lambda>i y. y + coeffs ! i * pt_x d ^ i) [0..<length coeffs] 0\<rparr>)
                   rangeData
           | _ \<Rightarrow> polynomialBaseline rangeData (nat_or (bo_degree options) 2) 10 (3 / 2))
      | AslsM \<Rightarrow>
          the (aslsBaseline rangeData (num_or (bo_lambda options) 100000)
                 (num_or (bo_p options) (1 / 100)) 10)
      | RollingBallM \<Rightarrow> rollingBallBaseline rangeData (num_or (bo_radius options) 10)
      | ShirleyM \<Rightarrow>
          shirleyBaseline rangeData (nat_or (bo_shirleyIterations options) 50)
            (num_or (bo_shirleyTolerance options) (1 / 100000))
      | ManualM \<Rightarrow>
          (case bo_manualPoints options of
             Some points \<Rightarrow>
               if 2 \<le> length points
               then manualBaseline rangeData points
                      (case bo_manualInterp options of None \<Rightarrow> LinearInterp | Some m \<Rightarrow> m)
               else zeroBaseline rangeData
           | None \<Rightarrow> zeroBaseline rangeData)
      | NoBaseline \<Rightarrow> zeroBaseline rangeData)"

text \<open>
  The last loop of \<^verbatim>\<open>calculateBaseline\<close>: the state is the array built so far and
  \<^verbatim>\<open>rangeIdx\<close>.
\<close>

definition extendStep ::
  "DataPoint list \<Rightarrow> nat list \<Rightarrow> DataPoint list \<Rightarrow> real \<Rightarrow> real \<Rightarrow> nat \<Rightarrow>
   DataPoint list \<times> nat \<Rightarrow> DataPoint list \<times> nat" where
  "extendStep data rangeIndices rangeBaseline leftBoundaryY rightBoundaryY i st =
     (case st of (fullBaseline, rangeIdx) \<Rightarrow>
        if rangeIdx < length rangeIndices \<and> i = rangeIndices ! rangeIdx
        then (fullBaseline @ [\<lparr>pt_x = pt_x (data ! i), pt_y = pt_y (rangeBaseline ! rangeIdx)\<rparr>],
              rangeIdx + 1)
        else if i < rangeIndices ! 0
        then (fullBaseline @ [\<lparr>pt_x = pt_x (data ! i), pt_y = leftBoundaryY\<rparr>], rangeIdx)
        else (fullBaseline @ [\<lparr>pt_x = pt_x (data ! i), pt_y = rightBoundaryY\<rparr>], rangeIdx))"

definition calculateBaseline :: "DataPoint list \<Rightarrow> BaselineOptions \<Rightarrow> DataPoint list" where
  "calculateBaseline data options =
     (if bo_method options = NoBaseline then zeroBaseline data
      else
        let calcMin = bo_calcRangeMin options;
            calcMax = bo_calcRangeMax options;
            hasRange = (calcMin \<noteq> None \<or> calcMax \<noteq> None);
            inIndices = inRangeIndices calcMin calcMax data;
            (rangeData, rangeIndices) =
               (if hasRange
                then (if length inIndices < 2 then (data, [0..<length data])
                      else (map (\<lambda>i. data ! i) inIndices, inIndices))
                else (data, []));
            rangeBaseline = methodBaseline rangeData options
        in if \<not> hasRange \<or> length rangeIndices = length data then rangeBaseline
           else
             let leftBoundaryY = (if 0 < length rangeBaseline then pt_y (rangeBaseline ! 0) else 0);
                 rightBoundaryY = (if 0 < length rangeBaseline
                                   then pt_y (rangeBaseline ! (length rangeBaseline - 1)) else 0)
             in fst (fold (extendStep data rangeIndices rangeBaseline leftBoundaryY rightBoundaryY)
                          [0..<length data] ([], 0)))"

text \<open>
  The value the extension gives to sample \<open>i\<close>, for the ascending in-range indices \<open>ri\<close>
  and the baseline \<open>rb\<close> of the in-range samples: the value computed for the sample when
  it is in range, the first computed value when it precedes the first in-range sample, the
  last computed value otherwise.
\<close>

definition extended_y :: "nat list \<Rightarrow> DataPoint list \<Rightarrow> nat \<Rightarrow> real" where
  "extended_y ri rb i =
     (if i \<in> set ri then pt_y (rb ! length (filter (\<lambda>j. j < i) ri))
      else if i < ri ! 0 then pt_y (rb ! 0) else pt_y (rb ! (length rb - 1)))"

section \<open>Levenberg-Marquardt optimizer\<close>

text \<open>
  \<^verbatim>\<open>calculateJacobian\<close>: one model evaluation at the parameters and one per
  parameter with that parameter moved by \<open>epsilon = 1e-8\<close>.
\<close>

definition calculateJacobian ::
  "real list \<Rightarrow> real list \<Rightarrow> (real list \<Rightarrow> real list \<Rightarrow> real list) \<Rightarrow> real list list" where
  "calculateJacobian x params modelFunc =
     (let n = length x;
          p = length params;
          y0 = modelFunc x params;
          epsilon = 1 / 10 ^ 8;
          columns = map (\<lambda>j. let paramsPlus = params[j := params ! j + epsilon];
                                   yPlus = modelFunc x paramsPlus
                               in map (\<lambda>i. (yPlus ! i - y0 ! i) / epsilon) [0..<n]) [0..<p]
      in map (\<lambda>i. map (\<lambda>j. columns ! j ! i) [0..<p]) [0..<n])"

text \<open>
  \<^verbatim>\<open>transpose\<close> and \<^verbatim>\<open>matrixMultiply\<close> read \<^verbatim>\<open>matrix[0].length\<close>: on a
  matrix without rows this throws a TypeError, here \<open>None\<close>.
\<close>

definition transposeM :: "real list list \<Rightarrow> real list list option" where
  "transposeM matrix =
     (if matrix = [] then None
      else let rows = length matrix; cols = length (matrix ! 0)
           in Some (map (\<lambda>j. map (\<lambda>i. matrix ! i ! j) [0..<rows]) [0..<cols]))"

definition matrixMultiply :: "real list list \<Rightarrow> real list list \<Rightarrow> real list list option" where
  "matrixMultiply A B =
     (if A = [] \<or> B = [] then None
      else let rowsA = length A; colsA = length (A ! 0); colsB = length (B ! 0)
           in Some (map (\<lambda>i. map (\<lambda>j. fold (\<lambda>k s. s + A ! i ! k * B ! k ! j) [0..<colsA] 0)
                                    [0..<colsB]) [0..<rowsA]))"

text \<open>
  \<^verbatim>\<open>solveLinear\<close>: elimination on the augmented matrix; \<open>None\<close> is the source's
  \<^verbatim>\<open>null\<close>, returned when a pivot is smaller than 1e-12 in magnitude.
\<close>

definition slForwardStep :: "nat \<Rightarrow> nat \<Rightarrow> real list list \<Rightarrow> real list list option" where
  "slForwardStep n i aug0 =
     (let maxRow = findPivot aug0 i n;
          aug1 = swapRows aug0 i maxRow
      in if \<bar>aug1 ! i ! i\<bar> < 1 / 10 ^ 12 then None
         else Some (fold (\<lambda>k aug.
                            let factor = aug ! k ! i / aug ! i ! i
                            in aug[k := eliminateRow (aug ! k) (aug ! i) factor i (n + 1)])
                         [i + 1..<n] aug1))"

definition slBackSubst :: "nat \<Rightarrow> real list list \<Rightarrow> real list" where
  "slBackSubst n aug =
     fold (\<lambda>i x.
             let s = fold (\<lambda>j s. s - aug ! i ! j * x ! j) [i + 1..<n] (aug ! i ! n)
             in x[i := s / aug ! i ! i])
          (rev [0..<n]) (replicate n 0)"

definition solveLinear :: "real list list \<Rightarrow> real list \<Rightarrow> real list option" where
  "solveLinear A b =
     (let n = length A;
          aug = map (\<lambda>i. A ! i @ [b ! i]) [0..<n]
      in case foldOption (slForwardStep n) [0..<n] aug of
           None \<Rightarrow> None
         | Some aug' \<Rightarrow> Some (slBackSubst n aug'))"

text \<open>
  The variables of the optimizer loop. \<open>lm_jacobianEvals\<close> is not a variable of the
  source: it counts the calls of \<^verbatim>\<open>calculateJacobian\<close>, so that statements about
  when a Jacobian is computed can be made.
\<close>

record LMState =
  lm_params :: "real list"
  lm_residuals :: "real list"
  lm_chiSquared :: real
  lm_lambda :: real
  lm_iterations :: nat
  lm_converged :: bool
  lm_jacobianEvals :: nat

text \<open>The damped normal equations of one iteration: the matrix \<open>H\<close> and the vector \<open>J\<^sup>T r\<close>.\<close>

definition lmDampedSystem ::
  "real list \<Rightarrow> (real list \<Rightarrow> real list \<Rightarrow> real list) \<Rightarrow> real list \<Rightarrow> real list \<Rightarrow> real \<Rightarrow>
   (real list list \<times> real list) option" where
  "lmDampedSystem x modelFunc params residuals lambda =
     (let n = length x;
          p = length params;
          J = calculateJacobian x params modelFunc
      in do {
           Jt \<leftarrow> transposeM J;
           JtJ \<leftarrow> matrixMultiply Jt J;
           let JtR = map (\<lambda>j. fold (\<lambda>i s. s + J ! i ! j * residuals ! i) [0..<n] 0) [0..<p];
           let H = map (\<lambda>i. map (\<lambda>j. let val = JtJ ! i ! j
                                        in if i = j then val + lambda * max val (1 / 10 ^ 10)
                                           else val)
                                  [0..<length (JtJ ! i)]) [0..<length JtJ];
           Some (H, JtR)
         })"

text \<open>
  One pass through the loop body. \<open>None\<close> is a TypeError; \<open>Break\<close> and \<open>Continue\<close>
  say how the pass leaves the body.
\<close>

definition lmIteration ::
  "real list \<Rightarrow> real list \<Rightarrow> (real list \<Rightarrow> real list \<Rightarrow> real list) \<Rightarrow> real \<Rightarrow> real \<Rightarrow> real \<Rightarrow>
   LMState \<Rightarrow> LMState LoopStep option" where
  "lmIteration x y modelFunc tolerance lambdaUp lambdaDown st0 =
     (let st = st0\<lparr>lm_iterations := lm_iterations st0 + 1,
                    lm_jacobianEvals := lm_jacobianEvals st0 + 1\<rparr>
      in case lmDampedSystem x modelFunc (lm_params st) (lm_residuals st) (lm_lambda st) of
           None \<Rightarrow> None
         | Some (H, JtR) \<Rightarrow>
             (case solveLinear H JtR of
                None \<Rightarrow> Some (Continue (st\<lparr>lm_lambda := lm_lambda st * lambdaUp\<rparr>))
              | Some delta \<Rightarrow>
                  let newParams = map (\<lambda>i. lm_params st ! i + delta ! i) [0..<length (lm_params st)];
                      newYPred = modelFunc x newParams;
                      newResiduals = map (\<lambda>i. y ! i - newYPred ! i) [0..<length y];
                      newChiSquared = fold (\<lambda>r s. s + r * r) newResiduals 0
                  in if newChiSquared < lm_chiSquared st then
                       let relChange = (lm_chiSquared st - newChiSquared)
                                       / (lm_chiSquared st + 1 / 10 ^ 10);
                           st' = st\<lparr>lm_params := newParams, lm_residuals := newResiduals,
                                    lm_chiSquared := newChiSquared\<rparr>
                       in if relChange < tolerance then Some (Break (st'\<lparr>lm_converged := True\<rparr>))
                          else Some (Continue (st'\<lparr>lm_lambda := lm_lambda st * lambdaDown\<rparr>))
                     else
                       let st' = st\<lparr>lm_lambda := lm_lambda st * lambdaUp\<rparr>
                       in if lm_lambda st' > 10 ^ 10 then Some (Break st') else Some (Continue st')))"

fun lmLoop :: "(LMState \<Rightarrow> LMState LoopStep option) \<Rightarrow> nat \<Rightarrow> LMState \<Rightarrow> LMState option" where
  "lmLoop body 0 st = Some st"
| "lmLoop body (Suc fuel) st =
     (case body st of
        None \<Rightarrow> None
      | Some (Break st') \<Rightarrow> Some st'
      | Some (Continue st') \<Rightarrow> lmLoop body fuel st')"

record LMOptions =
  lmo_maxIterations :: "nat option"
  lmo_tolerance :: "real option"
  lmo_lambdaInit :: "real option"
  lmo_lambdaUp :: "real option"
  lmo_lambdaDown :: "real option"

record LMResult =
  lmr_params :: "real list"
  lmr_residuals :: "real list"
  lmr_chiSquared :: real
  lmr_iterations :: nat
  lmr_converged :: bool

definition lmInitialState ::
  "real list \<Rightarrow> real list \<Rightarrow> real list \<Rightarrow> (real list \<Rightarrow> real list \<Rightarrow> real list) \<Rightarrow> real \<Rightarrow> LMState" where
  "lmInitialState x y initialParams modelFunc lambdaInit =
     (let yPred = modelFunc x initialParams;
          residuals = map (\<lambda>i. y ! i - yPred ! i) [0..<length y]
      in \<lparr>lm_params = initialParams, lm_residuals = residuals,
          lm_chiSquared = fold (\<lambda>r s. s + r * r) residuals 0,
          lm_lambda = lambdaInit, lm_iterations = 0, lm_converged = False,
          lm_jacobianEvals = 0\<rparr>)"

definition levenbergMarquardt ::
  "real list \<Rightarrow> real list \<Rightarrow> real list \<Rightarrow> (real list \<Rightarrow> real list \<Rightarrow> real list) \<Rightarrow> LMOptions \<Rightarrow>
   LMResult option" where
  "levenbergMarquardt x y initialParams modelFunc options =
     (let maxIterations = (case lmo_maxIterations options of None \<Rightarrow> 200 | Some m \<Rightarrow> m);
          tolerance = num_nullish (lmo_tolerance options) (1 / 10 ^ 8);
          lambdaInit = num_nullish (lmo_lambdaInit options) (1 / 1000);
          lambdaUp = num_nullish (lmo_lambdaUp options) 10;
          lambdaDown = num_nullish (lmo_lambdaDown options) (1 / 10)
      in case lmLoop (lmIteration x y modelFunc tolerance lambdaUp lambdaDown) maxIterations
                (lmInitialState x y initialParams modelFunc lambdaInit) of
           None \<Rightarrow> None
         | Some st \<Rightarrow>
             Some \<lparr>lmr_params = lm_params st, lmr_residuals = lm_residuals st,
                   lmr_chiSquared = lm_chiSquared st, lmr_iterations = lm_iterations st,
                   lmr_converged = lm_converged st\<rparr>)"

section \<open>Numbers that may not be finite\<close>

text \<open>
  The optimizer and the baseline algorithms are modelled over the reals. The curves and the
  statistics of a fit result can also be \<^verbatim>\<open>Infinity\<close>, \<^verbatim>\<open>-Infinity\<close> or \<^verbatim>\<open>NaN\<close>
  (see \<open>optimizedBaselineOf\<close>), so the result record holds numbers extended by these three
  values, with the arithmetic of IEEE 754 as JavaScript applies it. A zero is the positive
  zero: the only divisor of the result statistics that can be zero is \<^verbatim>\<open>n - p - 1\<close>, a
  difference of equal integers.
\<close>

datatype jsnum = Fin real | PosInf | NegInf | NaN

fun js_neg :: "jsnum \<Rightarrow> jsnum" where
  "js_neg (Fin u) = Fin (- u)"
| "js_neg PosInf = NegInf"
| "js_neg NegInf = PosInf"
| "js_neg NaN = NaN"

fun js_add :: "jsnum \<Rightarrow> jsnum \<Rightarrow> jsnum" where
  "js_add NaN b = NaN"
| "js_add a NaN = NaN"
| "js_add (Fin u) (Fin v) = Fin (u + v)"
| "js_add PosInf NegInf = NaN"
| "js_add NegInf PosInf = NaN"
| "js_add PosInf b = PosInf"
| "js_add a PosInf = PosInf"
| "js_add NegInf b = NegInf"
| "js_add a NegInf = NegInf"

definition js_sub :: "jsnum \<Rightarrow> jsnum \<Rightarrow> jsnum" where
  "js_sub a b = js_add a (js_neg b)"

fun js_sgn :: "jsnum \<Rightarrow> real" where
  "js_sgn (Fin u) = sgn u"
| "js_sgn PosInf = 1"
| "js_sgn NegInf = - 1"
| "js_sgn NaN = 0"

fun js_mul :: "jsnum \<Rightarrow> jsnum \<Rightarrow> jsnum" where
  "js_mul NaN b = NaN"
| "js_mul a NaN = NaN"
| "js_mul (Fin u) (Fin v) = Fin (u * v)"
| "js_mul a b = (if js_sgn a * js_sgn b = 0 then NaN
                 else if 0 < js_sgn a * js_sgn b then PosInf else NegInf)"

fun js_div :: "jsnum \<Rightarrow> jsnum \<Rightarrow> jsnum" where
  "js_div NaN b = NaN"
| "js_div a NaN = NaN"
| "js_div (Fin u) (Fin v) =
     (if v = 0 then (if u = 0 then NaN else if 0 < u then PosInf else NegInf) else Fin (u / v))"
| "js_div (Fin u) b = Fin 0"
| "js_div a (Fin v) = (if 0 \<le> v then a else js_neg a)"
| "js_div a b = NaN"

text \<open>\<^verbatim>\<open>Math.max\<close>, \<^verbatim>\<open>Math.sqrt\<close>, \<^verbatim>\<open>Math.log\<close> and \<^verbatim>\<open>a || b\<close>.\<close>

fun js_max :: "jsnum \<Rightarrow> jsnum \<Rightarrow> jsnum" where
  "js_max NaN b = NaN"
| "js_max a NaN = NaN"
| "js_max (Fin u) (Fin v) = Fin (max u v)"
| "js_max PosInf b = PosInf"
| "js_max a PosInf = PosInf"
| "js_max NegInf b = b"
| "js_max a NegInf = a"

fun js_sqrt :: "jsnum \<Rightarrow> jsnum" where
  "js_sqrt (Fin u) = (if u < 0 then NaN else Fin (sqrt u))"
| "js_sqrt PosInf = PosInf"
| "js_sqrt NegInf = NaN"
| "js_sqrt NaN = NaN"

fun js_ln :: "jsnum \<Rightarrow> jsnum" where
  "js_ln (Fin u) = (if u < 0 then NaN else if u = 0 then NegInf else Fin (ln u))"
| "js_ln PosInf = PosInf"
| "js_ln NegInf = NaN"
| "js_ln NaN = NaN"

definition js_or :: "jsnum \<Rightarrow> jsnum \<Rightarrow> jsnum" where
  "js_or a b = (if a = NaN \<or> a = Fin 0 then b else a)"


text \<open>A point of a result curve, and a point of a real-valued curve as such a point.\<close>

record ResultPoint =
  rp_x :: real
  rp_y :: jsnum

definition resultPoint :: "DataPoint \<Rightarrow> ResultPoint" where
  "resultPoint d = \<lparr>rp_x = pt_x d, rp_y = Fin (pt_y d)\<rparr>"


section \<open>Fit orchestrator\<close>

record BaselineParams =
  bp_slope :: "real option"
  bp_intercept :: "real option"
  bp_coeffs :: "real list option"
  bp_lambda :: "real option"
  bp_p :: "real option"
  bp_radius :: "real option"


record FitResult =
  fr_fittedData :: "DataPoint list"
  fr_residuals :: "ResultPoint list"
  fr_components :: "DataPoint list list"
  fr_baseline :: "ResultPoint list"
  fr_baselineCorrectedData :: "ResultPoint list"
  fr_rSquared :: jsnum
  fr_adjustedRSquared :: jsnum
  fr_rmse :: jsnum
  fr_chiSquared :: jsnum
  fr_reducedChiSquared :: jsnum
  fr_aic :: jsnum
  fr_bic :: jsnum
  fr_parameters :: "PeakComponent list"
  fr_iterations :: nat
  fr_converged :: bool
  fr_optimizedBaseline :: "ResultPoint list option"
  fr_baselineParams :: "BaselineParams option"

text \<open>
  A \<^verbatim>\<open>Map\<close> filled by \<^verbatim>\<open>forEach(b => map.set(b.x, b.y))\<close> and read by
  \<^verbatim>\<open>map.get(x) || 0\<close>.
\<close>

definition baselineMapOf :: "DataPoint list \<Rightarrow> (real \<rightharpoonup> real)" where
  "baselineMapOf baseline = fold (\<lambda>b m. m(pt_x b \<mapsto> pt_y b)) baseline Map.empty"

definition mapGetOr0 :: "(real \<rightharpoonup> real) \<Rightarrow> real \<Rightarrow> real" where
  "mapGetOr0 m x = (case m x of None \<Rightarrow> 0 | Some v \<Rightarrow> v)"

text \<open>The \<^verbatim>\<open>switch (profile)\<close> inside the model function, for packed parameters.\<close>

definition profileValue :: "Profile \<Rightarrow> real \<Rightarrow> real \<Rightarrow> real \<Rightarrow> real \<Rightarrow> real" where
  "profileValue profile x center amplitude width =
     (let sigma = width / (2355 / 1000); gamma = width / 2
      in case profile of
           Gaussian \<Rightarrow> gaussian x center amplitude sigma
         | Lorentzian \<Rightarrow> lorentzian x center amplitude gamma
         | Voigt \<Rightarrow> voigt x center amplitude sigma gamma)"

definition peakSum :: "PeakComponent list \<Rightarrow> real list \<Rightarrow> real list \<Rightarrow> real list" where
  "peakSum components x params =
     map (\<lambda>xi. fold (\<lambda>c s. s + profileValue (pc_profile (components ! c)) xi
                                 (params ! (c * 3)) (params ! (c * 3 + 1)) (params ! (c * 3 + 2)))
                    [0..<length components] 0) x"

definition optimizeBaselineFlag :: "BaselineOptions option \<Rightarrow> bool" where
  "optimizeBaselineFlag baselineOptions =
     (case baselineOptions of
        None \<Rightarrow> False
      | Some bo \<Rightarrow> bo_optimizeSimultaneously bo = Some True \<and> bo_method bo \<noteq> NoBaseline)"

definition degreeOr2 :: "BaselineOptions \<Rightarrow> nat" where
  "degreeOr2 bo = (case bo_degree bo of None \<Rightarrow> 2 | Some d \<Rightarrow> d)"

text \<open>The baseline parameters appended to the packed vector, and their number.\<close>

definition initialBaselineParams :: "BaselineOptions option \<Rightarrow> real list" where
  "initialBaselineParams baselineOptions =
     (case baselineOptions of
        None \<Rightarrow> []
      | Some bo \<Rightarrow>
          if \<not> optimizeBaselineFlag baselineOptions then []
          else case bo_method bo of
                 LinearM \<Rightarrow> [num_nullish (bo_slope bo) 0 / 1, num_nullish (bo_intercept bo) 0 / 1]
               | PolynomialM \<Rightarrow> replicate (degreeOr2 bo + 1) 0
               | AslsM \<Rightarrow> [log 10 (num_nullish (bo_lambda bo) 100000), num_nullish (bo_p bo) (1 / 100)]
               | RollingBallM \<Rightarrow> [num_nullish (bo_radius bo) 10]
               | ShirleyM \<Rightarrow> [0, 0]
               | _ \<Rightarrow> [])"

definition numBaselineParams :: "BaselineOptions option \<Rightarrow> nat" where
  "numBaselineParams baselineOptions = length (initialBaselineParams baselineOptions)"

definition shirleyIterationsOr50 :: "BaselineOptions \<Rightarrow> nat" where
  "shirleyIterationsOr50 bo = (case bo_shirleyIterations bo of None \<Rightarrow> 50 | Some k \<Rightarrow> k)"

text \<open>
  \<^verbatim>\<open>yMinusPeaks\<close> with the Shirley offsets applied to the first and the last value.
\<close>

definition applyOffsets :: "real list \<Rightarrow> real \<Rightarrow> real \<Rightarrow> real list" where
  "applyOffsets yMinusPeaks startOffset endOffset =
     map (\<lambda>i. if i = 0 then yMinusPeaks ! i + startOffset
               else if i = length yMinusPeaks - 1 then yMinusPeaks ! i + endOffset
               else yMinusPeaks ! i) [0..<length yMinusPeaks]"

definition zipData :: "real list \<Rightarrow> real list \<Rightarrow> DataPoint list" where
  "zipData x y = map (\<lambda>i. \<lparr>pt_x = x ! i, pt_y = y ! i\<rparr>) [0..<length x]"

text \<open>
  The model function handed to the optimizer, for a packed vector that holds all peak and
  baseline parameters (every vector the optimizer passes has this length).
\<close>

definition modelFunc ::
  "PeakComponent list \<Rightarrow> BaselineOptions option \<Rightarrow> real list \<Rightarrow> real list \<Rightarrow> real list \<Rightarrow> real list" where
  "modelFunc components baselineOptions yVals x params =
     (let result = peakSum components x params;
          blParamsStart = length components * 3
      in case baselineOptions of
           None \<Rightarrow> result
         | Some bo \<Rightarrow>
             if optimizeBaselineFlag baselineOptions \<and> 0 < numBaselineParams baselineOptions then
               (case bo_method bo of
                  LinearM \<Rightarrow>
                    (let slope = params ! blParamsStart; intercept = params ! (blParamsStart + 1)
                     in map (\<lambda>i. result ! i + (slope * x ! i + intercept)) [0..<length x])
                | PolynomialM \<Rightarrow>
                    map (\<lambda>i. result ! i
                              + fold (\<lambda>d bl. bl + params ! (blParamsStart + d) * (x ! i) ^ d)
                                     [0..<degreeOr2 bo + 1] 0) [0..<length x]
                | AslsM \<Rightarrow>
                    (let logLam = params ! blParamsStart;
                         p = max (1 / 10000) (min (1 / 2) (params ! (blParamsStart + 1)));
                         lambda = 10 powr (max 2 (min 10 logLam));
                         peakOnly = result;
                         yMinusPeaks = map (\<lambda>i. yVals ! i - peakOnly ! i) [0..<length yVals];
                         aslsBl = the (aslsBaseline (zipData x yMinusPeaks) lambda p 5)
                     in map (\<lambda>i. peakOnly ! i + pt_y (aslsBl ! i)) [0..<length x])
                | RollingBallM \<Rightarrow>
                    (let radius = max 1 (real_of_int (round (params ! blParamsStart)));
                         peakOnly = result;
                         yMinusPeaks = map (\<lambda>i. yVals ! i - peakOnly ! i) [0..<length yVals];
                         rbBl = rollingBallBaseline (zipData x yMinusPeaks) radius
                     in map (\<lambda>i. peakOnly ! i + pt_y (rbBl ! i)) [0..<length x])
                | ShirleyM \<Rightarrow>
                    (let startOffset = params ! blParamsStart;
                         endOffset = params ! (blParamsStart + 1);
                         peakOnly = result;
                         yMinusPeaks = map (\<lambda>i. yVals ! i - peakOnly ! i) [0..<length yVals];
                         adjustedData = applyOffsets yMinusPeaks startOffset endOffset;
                         shirleyBl = shirleyBaseline (zipData x adjustedData)
                                       (shirleyIterationsOr50 bo)
                                       (num_nullish (bo_shirleyTolerance bo) (1 / 100000))
                     in map (\<lambda>i. peakOnly ! i + pt_y (shirleyBl ! i)) [0..<length x])
                | _ \<Rightarrow> result)
             else result)"

text \<open>
  The baseline recomputed after the optimization, with its parameters. For the AsLS, rolling
  ball and Shirley methods the source evaluates
  \<^verbatim>\<open>modelFunc(xVals, lmResult.params.slice(0, components.length * 3))\<close>: the model function
  then reads baseline parameters that are \<^verbatim>\<open>undefined\<close>. For AsLS and Shirley this turns
  the inner baseline estimate into NaN at every index (or into zeros, for fewer than 3
  samples) and \<^verbatim>\<open>(bl[i]?.y || 0)\<close> replaces each of them by 0, so the call returns the
  peak sum. For rolling ball with at least 3 samples the inner radius is
  \<^verbatim>\<open>Math.max(1, Math.round(undefined))\<close>, that is NaN: every window of the inner
  \<^verbatim>\<open>rollingBallBaseline\<close> is empty, its minimum stays \<^verbatim>\<open>Infinity\<close>, the smoothed value
  \<^verbatim>\<open>(Infinity + Infinity + Infinity) / 3\<close> is \<^verbatim>\<open>Infinity\<close> and, \<^verbatim>\<open>Infinity || 0\<close> being
  \<^verbatim>\<open>Infinity\<close>, the call returns \<^verbatim>\<open>Infinity\<close> at every index. Then \<^verbatim>\<open>yMinusPeaks\<close> is
  \<^verbatim>\<open>-Infinity\<close> at every index and the outer \<^verbatim>\<open>rollingBallBaseline(rbData, radius)\<close>,
  whose radius is the optimized one, returns \<^verbatim>\<open>-Infinity\<close> at every index: every window
  minimum is \<^verbatim>\<open>-Infinity\<close>, and so is every smoothed value.
\<close>

definition optimizedBaselineOf ::
  "PeakComponent list \<Rightarrow> BaselineOptions option \<Rightarrow> real list \<Rightarrow> real list \<Rightarrow> real list \<Rightarrow>
   ResultPoint list option \<times> BaselineParams option" where
  "optimizedBaselineOf components baselineOptions xVals yVals params =
     (let blParamsStart = length components * 3;
          noParams = \<lparr>bp_slope = None, bp_intercept = None, bp_coeffs = None, bp_lambda = None,
                      bp_p = None, bp_radius = None\<rparr>;
          peakModel = peakSum components xVals (take blParamsStart params);
          yMinusPeaks = map (\<lambda>i. yVals ! i - peakModel ! i) [0..<length yVals]
      in case baselineOptions of
           None \<Rightarrow> (None, None)
         | Some bo \<Rightarrow>
             if optimizeBaselineFlag baselineOptions \<and> 0 < numBaselineParams baselineOptions then
               (case bo_method bo of
                  LinearM \<Rightarrow>
                    (let slope = params ! blParamsStart; intercept = params ! (blParamsStart + 1)
                     in (Some (map (\<lambda>x. \<lparr>rp_x = x, rp_y = Fin (slope * x + intercept)\<rparr>) xVals),
                         Some (noParams\<lparr>bp_slope := Some slope, bp_intercept := Some intercept\<rparr>)))
                | PolynomialM \<Rightarrow>
                    (let coeffs = map (\<lambda>d. params ! (blParamsStart + d)) [0..<degreeOr2 bo + 1]
                     in (Some (map (\<lambda>x. \<lparr>rp_x = x,
                                           rp_y = Fin (fold (\<lambda>d bl. bl + coeffs ! d * x ^ d)
                                                            [0..<degreeOr2 bo + 1] 0)\<rparr>) xVals),
                         Some (noParams\<lparr>bp_coeffs := Some coeffs\<rparr>)))
                | AslsM \<Rightarrow>
                    (let logLam = params ! blParamsStart;
                         p = params ! (blParamsStart + 1);
                         lambda = 10 powr logLam
                     in (Some (map resultPoint
                                 (the (aslsBaseline (zipData xVals yMinusPeaks) lambda p 10))),
                         Some (noParams\<lparr>bp_lambda := Some lambda, bp_p := Some p\<rparr>)))
                | RollingBallM \<Rightarrow>
                    (let radius = max 1 (real_of_int (round (params ! blParamsStart)))
                     in (Some (if length xVals < 3
                               then map resultPoint
                                      (rollingBallBaseline (zipData xVals yMinusPeaks) radius)
                               else map (\<lambda>x. \<lparr>rp_x = x, rp_y = NegInf\<rparr>) xVals),
                         Some (noParams\<lparr>bp_radius := Some radius\<rparr>)))
                | ShirleyM \<Rightarrow>
                    (let startOffset = params ! blParamsStart;
                         endOffset = params ! (blParamsStart + 1);
                         adjustedData = applyOffsets yMinusPeaks startOffset endOffset
                     in (Some (map resultPoint
                                 (shirleyBaseline (zipData xVals adjustedData)
                                    (shirleyIterationsOr50 bo)
                                    (num_nullish (bo_shirleyTolerance bo) (1 / 100000)))),
                         None))
                | _ \<Rightarrow> (None, None))
             else (None, None))"


text \<open>The unpacking of the optimized peak parameters.\<close>

definition unpackParams :: "PeakComponent list \<Rightarrow> real list \<Rightarrow> PeakComponent list" where
  "unpackParams components params =
     map (\<lambda>i. (components ! i)\<lparr>pc_center := params ! (i * 3),
                                 pc_amplitude := max 0 (params ! (i * 3 + 1)),
                                 pc_width := max (1 / 100) (params ! (i * 3 + 2)),
                                 pc_weight := 1\<rparr>) [0..<length components]"

text \<open>
  The map of the final baseline, read by \<^verbatim>\<open>finalBaselineMap.get(d.x) || 0\<close>, and the
  curves and the two sums of squares of the final loop over the data.
\<close>

definition resultMapOf :: "ResultPoint list \<Rightarrow> (real \<rightharpoonup> jsnum)" where
  "resultMapOf baseline = fold (\<lambda>b m. m(rp_x b \<mapsto> rp_y b)) baseline Map.empty"

definition resultGetOr0 :: "(real \<rightharpoonup> jsnum) \<Rightarrow> real \<Rightarrow> jsnum" where
  "resultGetOr0 m x = (case m x of None \<Rightarrow> Fin 0 | Some v \<Rightarrow> js_or v (Fin 0))"

definition correctedCurve :: "DataPoint list \<Rightarrow> ResultPoint list \<Rightarrow> ResultPoint list" where
  "correctedCurve data finalBaseline =
     map (\<lambda>d. \<lparr>rp_x = pt_x d,
                rp_y = js_sub (Fin (pt_y d)) (resultGetOr0 (resultMapOf finalBaseline) (pt_x d))\<rparr>)
         data"

definition fittedCurve :: "DataPoint list \<Rightarrow> PeakComponent list \<Rightarrow> DataPoint list" where
  "fittedCurve data optimizedParams =
     map (\<lambda>d. \<lparr>pt_x = pt_x d,
                pt_y = fold (\<lambda>c fittedY. fittedY + calculatePeak (pt_x d) c) optimizedParams 0\<rparr>) data"

definition js_square :: "jsnum \<Rightarrow> jsnum" where
  "js_square a = js_mul a a"

definition sumSquaredResidualsOf :: "ResultPoint list \<Rightarrow> DataPoint list \<Rightarrow> jsnum" where
  "sumSquaredResidualsOf corrected fitted =
     fold (\<lambda>i s. js_add s (js_square (js_sub (js_div (rp_y (corrected ! i)) (Fin 1))
                                               (js_div (Fin (pt_y (fitted ! i))) (Fin 1)))))
          [0..<length corrected] (Fin 0)"

definition sumSquaredTotalOf :: "DataPoint list \<Rightarrow> real" where
  "sumSquaredTotalOf data =
     (let meanY = fold (\<lambda>d s. s + pt_y d) data 0 / real (length data)
      in fold (\<lambda>d s. s + (pt_y d / 1 - meanY / 1) ^ 2) data 0)"

definition emptyFitResult :: "PeakComponent list \<Rightarrow> FitResult" where
  "emptyFitResult components =
     \<lparr>fr_fittedData = [], fr_residuals = [], fr_components = [], fr_baseline = [],
      fr_baselineCorrectedData = [], fr_rSquared = Fin 0, fr_adjustedRSquared = Fin 0,
      fr_rmse = Fin 0, fr_chiSquared = Fin 0, fr_reducedChiSquared = Fin 0, fr_aic = Fin 0,
      fr_bic = Fin 0, fr_parameters = components, fr_iterations = 0, fr_converged = False,
      fr_optimizedBaseline = None, fr_baselineParams = None\<rparr>"

text \<open>
  The result record built after the optimization, from the optimizer's result and the
  recomputed baseline.
\<close>

definition buildFitResult ::
  "DataPoint list \<Rightarrow> PeakComponent list \<Rightarrow> DataPoint list \<Rightarrow> nat \<Rightarrow> LMResult \<Rightarrow>
   ResultPoint list option \<Rightarrow> BaselineParams option \<Rightarrow> FitResult" where
  "buildFitResult data components baseline nBaselineParams lmResult optimizedBaseline
      optimizedBaselineParams =
     (let optimizedParams = unpackParams components (lmr_params lmResult);
          finalBaseline = (case optimizedBaseline of
                             None \<Rightarrow> map resultPoint baseline
                           | Some ob \<Rightarrow> ob);
          baselineCorrectedData = correctedCurve data finalBaseline;
          fittedData = fittedCurve data optimizedParams;
          residuals = map (\<lambda>i. \<lparr>rp_x = pt_x (data ! i),
                                  rp_y = js_sub (rp_y (baselineCorrectedData ! i))
                                                (Fin (pt_y (fittedData ! i)))\<rparr>)
                          [0..<length data];
          componentData = map (\<lambda>c. map (\<lambda>d. \<lparr>pt_x = pt_x d, pt_y = calculatePeak (pt_x d) c\<rparr>) data)
                              optimizedParams;
          sumSquaredResiduals = sumSquaredResidualsOf baselineCorrectedData fittedData;
          sumSquaredTotal = Fin (sumSquaredTotalOf data);
          n = Fin (real (length data));
          p = Fin (real (length optimizedParams * 3 + nBaselineParams));
          rSquared = js_sub (Fin 1) (js_div sumSquaredResiduals (js_or sumSquaredTotal (Fin 1)));
          adjustedRSquared =
            js_sub (Fin 1) (js_div (js_mul (js_sub (Fin 1) rSquared) (js_sub n (Fin 1)))
                                   (js_sub (js_sub n p) (Fin 1)));
          rmse = js_sqrt (js_div sumSquaredResiduals n);
          chiSquared = Fin (lmr_chiSquared lmResult);
          dof = js_max (Fin 1) (js_sub n p);
          reducedChiSquared = js_div chiSquared dof;
          logLikelihood = js_mul (js_div (js_neg n) (Fin 2)) (js_ln (js_div sumSquaredResiduals n));
          aic = js_sub (js_mul (Fin 2) p) (js_mul (Fin 2) logLikelihood);
          bic = js_sub (js_mul p (js_ln n)) (js_mul (Fin 2) logLikelihood)
      in \<lparr>fr_fittedData = fittedData, fr_residuals = residuals, fr_components = componentData,
          fr_baseline = finalBaseline, fr_baselineCorrectedData = baselineCorrectedData,
          fr_rSquared = js_max (Fin 0) rSquared,
          fr_adjustedRSquared = js_max (Fin 0) adjustedRSquared,
          fr_rmse = rmse, fr_chiSquared = chiSquared, fr_reducedChiSquared = reducedChiSquared,
          fr_aic = aic, fr_bic = bic, fr_parameters = optimizedParams,
          fr_iterations = lmr_iterations lmResult, fr_converged = lmr_converged lmResult,
          fr_optimizedBaseline = optimizedBaseline, fr_baselineParams = optimizedBaselineParams\<rparr>)"


text \<open>
  The optimizer call of \<^verbatim>\<open>fitPeaks\<close>: packed initial parameters (amplitude times
  weight), the target values and the options \<^verbatim>\<open>{maxIterations, tolerance: 1e-8}\<close>.
\<close>

definition packParams :: "PeakComponent list \<Rightarrow> BaselineOptions option \<Rightarrow> real list" where
  "packParams components baselineOptions =
     concat (map (\<lambda>c. [pc_center c, pc_amplitude c * pc_weight c, pc_width c]) components)
     @ initialBaselineParams baselineOptions"

definition fitOptimize ::
  "DataPoint list \<Rightarrow> PeakComponent list \<Rightarrow> DataPoint list \<Rightarrow> BaselineOptions option \<Rightarrow> nat \<Rightarrow>
   LMResult option" where
  "fitOptimize data components baseline baselineOptions maxIterations =
     (let xVals = map pt_x data;
          yVals = map pt_y data;
          initialBaselineYVals = map (mapGetOr0 (baselineMapOf baseline)) xVals;
          targetYVals = (if optimizeBaselineFlag baselineOptions then yVals
                         else map (\<lambda>i. yVals ! i - initialBaselineYVals ! i) [0..<length yVals])
      in levenbergMarquardt xVals targetYVals (packParams components baselineOptions)
           (modelFunc components baselineOptions yVals)
           \<lparr>lmo_maxIterations = Some maxIterations, lmo_tolerance = Some (1 / 10 ^ 8),
            lmo_lambdaInit = None, lmo_lambdaUp = None, lmo_lambdaDown = None\<rparr>)"

text \<open>
  \<^verbatim>\<open>fitPeaks\<close>. \<open>None\<close> stands for a TypeError of the optimizer; a result with values
  that are not finite is returned as such.
\<close>

definition fitPeaks ::
  "DataPoint list \<Rightarrow> PeakComponent list \<Rightarrow> DataPoint list \<Rightarrow> BaselineOptions option \<Rightarrow> nat \<Rightarrow>
   FitResult option" where
  "fitPeaks data components baseline baselineOptions maxIterations =
     (if data = [] \<or> components = [] then Some (emptyFitResult components)
      else
        case fitOptimize data components baseline baselineOptions maxIterations of
          None \<Rightarrow> None
        | Some lmResult \<Rightarrow>
            (case optimizedBaselineOf components baselineOptions (map pt_x data) (map pt_y data)
                    (lmr_params lmResult) of
               (optimizedBaseline, optimizedBaselineParams) \<Rightarrow>
                 Some (buildFitResult data components baseline (numBaselineParams baselineOptions)
                         lmResult optimizedBaseline optimizedBaselineParams)))"


text \<open>The state a pass through a loop body ends in, however the pass leaves the body.\<close>

definition stepState :: "'s LoopStep \<Rightarrow> 's" where
  "stepState r = (case r of Break s \<Rightarrow> s | Continue s \<Rightarrow> s)"


section \<open>Peak value at the centre\<close>

lemma gaussian_at_center: "gaussian c c a s = a"
  by (simp add: gaussian_def)

lemma lorentzian_at_center: "g \<noteq> 0 \<Longrightarrow> lorentzian c c a g = a"
  by (simp add: lorentzian_def)

lemma voigt_at_center:
  assumes "g \<noteq> 0"
  shows "voigt c c a s g = a"
proof -
  have "voigt c c a s g = a * (g / (s + g) * 1 + (1 - g / (s + g)) * 1)"
    using assms by (simp add: voigt_def Let_def gaussian_at_center lorentzian_at_center)
  also have "\<dots> = a" by simp
  finally show ?thesis .
qed

text \<open>
  Claim C1. For a component with FWHM width > 0, weight in [0,2] and no sigma/gamma
  override, \<open>calculatePeak\<close> evaluated at the centre returns amplitude times weight,
  for each of the three profiles.
\<close>

theorem calculatePeak_at_center:
  assumes "0 < pc_width pk"
    and "0 \<le> pc_weight pk" and "pc_weight pk \<le> 2"
    and "pc_sigma pk = None" and "pc_gamma pk = None"
  shows "calculatePeak (pc_center pk) pk = pc_amplitude pk * pc_weight pk"
proof (cases "pc_profile pk")
  case Gaussian
  then show ?thesis
    by (simp add: calculatePeak_def Let_def gaussian_at_center)
next
  case Lorentzian
  then show ?thesis
    using assms by (simp add: calculatePeak_def Let_def num_or_def lorentzian_at_center)
next
  case Voigt
  then show ?thesis
    using assms by (simp add: calculatePeak_def Let_def num_or_def voigt_at_center)
qed

theorem calculatePeak_at_center_witness:
  "calculatePeak 1
     \<lparr>pc_id = 1, pc_profile = Voigt, pc_center = 1, pc_amplitude = 3, pc_width = 2,
      pc_weight = 1 / 2, pc_sigma = None, pc_gamma = None\<rparr> = 3 * (1 / 2)"
  using calculatePeak_at_center
    [of "\<lparr>pc_id = 1, pc_profile = Voigt, pc_center = 1, pc_amplitude = 3, pc_width = 2,
          pc_weight = 1 / 2, pc_sigma = None, pc_gamma = None\<rparr>"]
  by simp

section \<open>Properties of the rolling-ball baseline\<close>

lemma fold_update_nth:
  "k < length sm \<Longrightarrow>
   fold (\<lambda>i s. s[i := f i]) js sm ! k = (if k \<in> set js then f k else sm ! k)"
  by (induction js arbitrary: sm) (auto simp: nth_list_update)

lemma fold_update_length: "length (fold (\<lambda>i s. s[i := f i]) js sm) = length sm"
  by (induction js arbitrary: sm) auto

lemma rb_smooth_length: "length (rb_smooth b) = length b"
  by (simp add: rb_smooth_def fold_update_length eval_nat_numeral upt_rec[of 0])

lemma rb_smooth_nth:
  assumes "k < length b"
  shows "rb_smooth b ! k =
         (if 1 \<le> k \<and> k + 1 < length b then (b ! (k - 1) + b ! k + b ! (k + 1)) / 3 else b ! k)"
proof -
  let ?f = "\<lambda>i. (b ! (i - 1) + b ! i + b ! (i + 1)) / 3"
  let ?p = "fold (\<lambda>i s. s[i := ?f i]) [1..<length b - 1]"
  have unf: "rb_smooth b = ?p (?p (?p b))"
    by (simp add: rb_smooth_def eval_nat_numeral upt_rec[of 0] upt_rec[of "Suc 0"])
  have mem: "k \<in> set [1..<length b - 1] \<longleftrightarrow> 1 \<le> k \<and> k + 1 < length b"
    by auto
  show ?thesis
    unfolding unf using assms
    by (simp only: fold_update_nth fold_update_length mem) simp
qed

lemma rb_smooth_is_one_pass: "rb_smooth b = movingAverage3 b"
  by (rule nth_equalityI) (simp_all add: rb_smooth_length movingAverage3_def rb_smooth_nth)

lemma windowMin_fold:
  "fold (\<lambda>j minVal. case minVal of None \<Rightarrow> Some (y ! j)
                     | Some m \<Rightarrow> if y ! j < m then Some (y ! j) else Some m) js acc =
   (case acc of
      None \<Rightarrow> if js = [] then None else Some (Min ((\<lambda>j. y ! j) ` set js))
    | Some m \<Rightarrow> Some (Min (insert m ((\<lambda>j. y ! j) ` set js))))"
proof (induction js arbitrary: acc)
  case Nil
  then show ?case by (simp split: option.splits)
next
  case (Cons j js)
  show ?case
  proof (cases acc)
    case None
    then show ?thesis by (simp add: Cons.IH)
  next
    case (Some m)
    let ?S = "(\<lambda>j. y ! j) ` set js"
    have step: "(if y ! j < m then Some (y ! j) else Some m) = Some (min (y ! j) m)"
      by (auto simp: min_def)
    have "Min (insert (min (y ! j) m) ?S) = Min (insert m (insert (y ! j) ?S))"
    proof (cases "js = []")
      case True
      then show ?thesis by (simp add: min.commute)
    next
      case False
      then have ne: "?S \<noteq> {}" and fin: "finite ?S" by simp_all
      show ?thesis
        using ne fin by (simp add: min.assoc min.commute)
    qed
    with Some show ?thesis
      by (simp add: Cons.IH step del: Min_insert)
  qed
qed

lemma windowMin_eq:
  "start < stop \<Longrightarrow> windowMin y start stop = Some (Min ((\<lambda>j. y ! j) ` {start..<stop}))"
  by (simp add: windowMin_def windowMin_fold)

lemma rb_envelope_length: "length (rb_envelope y h) = length y"
  by (simp add: rb_envelope_def)

lemma rb_envelope_nth:
  assumes "0 \<le> h" and "i < length y"
  shows "rb_envelope y h ! i =
         Min ((\<lambda>j. y ! j) ` {nat (max 0 (int i - h))..<nat (min (int (length y)) (int i + h + 1))})"
proof -
  have "nat (max 0 (int i - h)) < nat (min (int (length y)) (int i + h + 1))"
    using assms by auto
  then show ?thesis
    using assms(2) by (simp add: rb_envelope_def Let_def windowMin_eq)
qed


lemma rb_envelope_le_window:
  assumes "0 \<le> h" and "i < length y" and "j < length y"
    and "int i - h \<le> int j" and "int j \<le> int i + h"
  shows "rb_envelope y h ! i \<le> y ! j"
proof -
  let ?W = "{nat (max 0 (int i - h))..<nat (min (int (length y)) (int i + h + 1))}"
  have "j \<in> ?W" using assms by auto
  then have "Min ((\<lambda>j. y ! j) ` ?W) \<le> y ! j" by simp
  with assms(1,2) show ?thesis by (simp add: rb_envelope_nth)
qed

lemma rb_envelope_mono:
  assumes "0 \<le> h1" and "h1 \<le> h2" and "i < length y"
  shows "rb_envelope y h2 ! i \<le> rb_envelope y h1 ! i"
proof -
  let ?W1 = "{nat (max 0 (int i - h1))..<nat (min (int (length y)) (int i + h1 + 1))}"
  let ?W2 = "{nat (max 0 (int i - h2))..<nat (min (int (length y)) (int i + h2 + 1))}"
  have sub: "?W1 \<subseteq> ?W2" using assms by auto
  have ne: "?W1 \<noteq> {}" using assms by auto
  have "Min ((\<lambda>j. y ! j) ` ?W2) \<le> Min ((\<lambda>j. y ! j) ` ?W1)"
    by (rule Min_antimono) (use sub ne in auto)
  with assms show ?thesis by (simp add: rb_envelope_nth)
qed

lemma movingAverage3_mono:
  assumes "length u = length v" and "\<forall>k<length v. u ! k \<le> v ! k" and "i < length v"
  shows "movingAverage3 u ! i \<le> movingAverage3 v ! i"
proof (cases "1 \<le> i \<and> i + 1 < length v")
  case True
  then have "u ! (i - 1) \<le> v ! (i - 1)" "u ! i \<le> v ! i" "u ! (i + 1) \<le> v ! (i + 1)"
    using assms(2) by auto
  then show ?thesis
    using True assms(1,3) by (simp add: movingAverage3_def)
next
  case False
  then show ?thesis
    using assms by (auto simp: movingAverage3_def)
qed

lemma rollingBallBaseline_length: "length (rollingBallBaseline data r) = length data"
  by (simp add: rollingBallBaseline_def Let_def)

lemma rollingBallBaseline_y:
  assumes "3 \<le> length data" and "i < length data"
  shows "pt_y (rollingBallBaseline data r ! i) =
         movingAverage3 (rb_envelope (map pt_y data) \<lceil>r\<rceil>) ! i"
  using assms by (simp add: rollingBallBaseline_def Let_def rb_smooth_is_one_pass)

text \<open>
  What the source computes: every pass of the smoothing loop reads the unsmoothed
  \<^verbatim>\<open>baseline\<close> array, so the three passes write the same values and the result is
  one 3-point moving average of the minimum envelope.
\<close>

lemma rollingBall_is_single_pass:
  assumes "3 \<le> length data"
  shows "map pt_y (rollingBallBaseline data r) = movingAverage3 (rb_envelope (map pt_y data) \<lceil>r\<rceil>)"
proof (rule nth_equalityI)
  show "length (map pt_y (rollingBallBaseline data r)) =
        length (movingAverage3 (rb_envelope (map pt_y data) \<lceil>r\<rceil>))"
    by (simp add: rollingBallBaseline_length movingAverage3_def rb_envelope_length)
next
  fix i assume "i < length (map pt_y (rollingBallBaseline data r))"
  then have "i < length data" by (simp add: rollingBallBaseline_length)
  then show "map pt_y (rollingBallBaseline data r) ! i =
             movingAverage3 (rb_envelope (map pt_y data) \<lceil>r\<rceil>) ! i"
    using assms by (simp add: rollingBallBaseline_length rollingBallBaseline_y)
qed

text \<open>
  Claim C7. The rolling-ball baseline is the window minimum followed by three successive
  passes of a 3-point moving average, each pass averaging the output of the previous one.
  On five points with y = 9, 9, 9, 9, 0 and radius 1 the minimum envelope is
  9, 9, 9, 0, 0; the source returns its single moving average 9, 9, 6, 3, 0, whereas three
  successive passes give 9, 23/3, 17/3, 3, 0.
\<close>

theorem rollingBall_three_passes_failing_input:
  "map pt_y (rollingBallBaseline
      [\<lparr>pt_x = 0, pt_y = 9\<rparr>, \<lparr>pt_x = 1, pt_y = 9\<rparr>, \<lparr>pt_x = 2, pt_y = 9\<rparr>,
       \<lparr>pt_x = 3, pt_y = 9\<rparr>, \<lparr>pt_x = 4, pt_y = 0\<rparr>] 1) = [9, 9, 6, 3, 0]
   \<and> rollingBall_spec
      [\<lparr>pt_x = 0, pt_y = 9\<rparr>, \<lparr>pt_x = 1, pt_y = 9\<rparr>, \<lparr>pt_x = 2, pt_y = 9\<rparr>,
       \<lparr>pt_x = 3, pt_y = 9\<rparr>, \<lparr>pt_x = 4, pt_y = 0\<rparr>] 1 = [9, 23 / 3, 17 / 3, 3, 0]"
  by code_simp

text \<open>
  Claim C8, as amended. For radii \<open>0 \<le> r1 \<le> r2\<close> the baseline computed with \<open>r2\<close> is
  pointwise at most the baseline computed with \<open>r1\<close>, and the minimum envelope (the
  baseline before smoothing) never exceeds a value of its index window. The smoothed
  baseline itself can exceed a value of the window, as the counterexample below shows.
\<close>

theorem rollingBall_monotone_in_radius:
  assumes "0 \<le> r1" and "r1 \<le> r2" and "i < length data"
  shows "pt_y (rollingBallBaseline data r2 ! i) \<le> pt_y (rollingBallBaseline data r1 ! i)
       \<and> (\<forall>j. j < length data \<and> int i - \<lceil>r1\<rceil> \<le> int j \<and> int j \<le> int i + \<lceil>r1\<rceil>
              \<longrightarrow> rb_envelope (map pt_y data) \<lceil>r1\<rceil> ! i \<le> pt_y (data ! j))"
proof
  have h: "0 \<le> \<lceil>r1\<rceil>" "\<lceil>r1\<rceil> \<le> \<lceil>r2\<rceil>"
    using assms(1,2) by (simp_all add: ceiling_mono)
  show "pt_y (rollingBallBaseline data r2 ! i) \<le> pt_y (rollingBallBaseline data r1 ! i)"
  proof (cases "length data < 3")
    case True
    then show ?thesis using assms(3) by (simp add: rollingBallBaseline_def)
  next
    case False
    let ?y = "map pt_y data"
    have "movingAverage3 (rb_envelope ?y \<lceil>r2\<rceil>) ! i \<le> movingAverage3 (rb_envelope ?y \<lceil>r1\<rceil>) ! i"
      by (rule movingAverage3_mono)
         (use h assms(3) in \<open>simp_all add: rb_envelope_length rb_envelope_mono\<close>)
    with False assms(3) show ?thesis by (simp add: rollingBallBaseline_y)
  qed
  show "\<forall>j. j < length data \<and> int i - \<lceil>r1\<rceil> \<le> int j \<and> int j \<le> int i + \<lceil>r1\<rceil>
              \<longrightarrow> rb_envelope (map pt_y data) \<lceil>r1\<rceil> ! i \<le> pt_y (data ! j)"
    using rb_envelope_le_window[of "\<lceil>r1\<rceil>" i "map pt_y data"] h(1) assms(3) by auto
qed

theorem rollingBall_monotone_in_radius_witness:
  "pt_y (rollingBallBaseline
      [\<lparr>pt_x = 0, pt_y = 9\<rparr>, \<lparr>pt_x = 1, pt_y = 9\<rparr>, \<lparr>pt_x = 2, pt_y = 9\<rparr>,
       \<lparr>pt_x = 3, pt_y = 9\<rparr>, \<lparr>pt_x = 4, pt_y = 0\<rparr>] 2 ! 2)
   \<le> pt_y (rollingBallBaseline
      [\<lparr>pt_x = 0, pt_y = 9\<rparr>, \<lparr>pt_x = 1, pt_y = 9\<rparr>, \<lparr>pt_x = 2, pt_y = 9\<rparr>,
       \<lparr>pt_x = 3, pt_y = 9\<rparr>, \<lparr>pt_x = 4, pt_y = 0\<rparr>] 1 ! 2)"
proof -
  have a: "(0::real) \<le> 1" and b: "(1::real) \<le> 2" by simp_all
  have c: "2 < length [\<lparr>pt_x = 0, pt_y = 9\<rparr>, \<lparr>pt_x = 1, pt_y = 9\<rparr>, \<lparr>pt_x = 2, pt_y = 9\<rparr>,
       \<lparr>pt_x = 3, pt_y = 9::real\<rparr>, \<lparr>pt_x = 4, pt_y = 0\<rparr>]" by simp
  from rollingBall_monotone_in_radius[OF a b c] show ?thesis by (rule conjunct1)
qed

text \<open>
  With y = 9, 9, 9, 9, 0 and radius 1 the baseline at index 3 is 3, above y[4] = 0,
  although index 4 lies in the window [2, 4] of index 3.
\<close>

theorem rollingBall_window_bound_counterexample:
  "\<not> pt_y (rollingBallBaseline
      [\<lparr>pt_x = 0, pt_y = 9\<rparr>, \<lparr>pt_x = 1, pt_y = 9\<rparr>, \<lparr>pt_x = 2, pt_y = 9\<rparr>,
       \<lparr>pt_x = 3, pt_y = 9\<rparr>, \<lparr>pt_x = 4, pt_y = 0\<rparr>] 1 ! 3)
     \<le> pt_y ([\<lparr>pt_x = 0, pt_y = 9\<rparr>, \<lparr>pt_x = 1, pt_y = 9\<rparr>, \<lparr>pt_x = 2, pt_y = 9\<rparr>,
       \<lparr>pt_x = 3, pt_y = 9\<rparr>, \<lparr>pt_x = 4, pt_y = 0::real\<rparr>] ! 4)"
  by code_simp

section \<open>Manual baseline outside the control-point span\<close>

lemma sorted_first_le_last:
  assumes "sorted xs" and "xs \<noteq> []"
  shows "xs ! 0 \<le> xs ! (length xs - 1)"
  using assms by (simp add: sorted_iff_nth_mono)

lemma linear_outside_left:
  assumes "0 < length sp" and "x < pt_x (sp ! 0)"
  shows "linearInterpolate (map pt_x sp) (map pt_y sp) x = pt_y (sp ! 0)"
proof -
  have "map pt_x sp ! 0 = pt_x (sp ! 0)" "map pt_y sp ! 0 = pt_y (sp ! 0)"
    using assms(1) by (simp_all only: nth_map)
  with assms(2) show ?thesis by (simp add: linearInterpolate_def)
qed

lemma linear_outside_right:
  assumes "0 < length sp" and "sorted (map pt_x sp)" and "pt_x (sp ! (length sp - 1)) < x"
  shows "linearInterpolate (map pt_x sp) (map pt_y sp) x = pt_y (sp ! (length sp - 1))"
proof -
  have k: "length sp - 1 < length sp" using assms(1) by linarith
  have e: "map pt_x sp ! 0 = pt_x (sp ! 0)"
    "map pt_x sp ! (length sp - 1) = pt_x (sp ! (length sp - 1))"
    "map pt_y sp ! (length sp - 1) = pt_y (sp ! (length sp - 1))"
    using assms(1) k by (simp_all only: nth_map)
  have "map pt_x sp \<noteq> []" using assms(1) by (cases sp) simp_all
  from sorted_first_le_last[OF assms(2) this]
  have "pt_x (sp ! 0) \<le> pt_x (sp ! (length sp - 1))" using e by simp
  with assms(3) have "\<not> x \<le> pt_x (sp ! 0)" "pt_x (sp ! (length sp - 1)) \<le> x" by simp_all
  moreover have "sp \<noteq> []" using assms(1) by auto
  ultimately show ?thesis by (simp add: linearInterpolate_def Let_def nth_map)
qed

lemma cubic_outside_left:
  assumes "3 \<le> length sp" and "x < pt_x (sp ! 0)"
  shows "cubicSplineInterpolate (map pt_x sp) (map pt_y sp) x =
         pt_y (sp ! 0) + (pt_y (sp ! 1) - pt_y (sp ! 0)) / (pt_x (sp ! 1) - pt_x (sp ! 0))
                         * (x - pt_x (sp ! 0))"
proof -
  have k: "0 < length sp" "1 < length sp" using assms(1) by linarith+
  have e: "map pt_x sp ! 0 = pt_x (sp ! 0)" "map pt_y sp ! 0 = pt_y (sp ! 0)"
    "map pt_x sp ! 1 = pt_x (sp ! 1)" "map pt_y sp ! 1 = pt_y (sp ! 1)"
    using k by (simp_all only: nth_map)
  have "cubicSplineInterpolate (map pt_x sp) (map pt_y sp) x =
        map pt_y sp ! 0 + (map pt_y sp ! 1 - map pt_y sp ! 0) / (map pt_x sp ! 1 - map pt_x sp ! 0)
                         * (x - map pt_x sp ! 0)"
    using assms by (simp add: cubicSplineInterpolate_def e(1))
  then show ?thesis by (simp only: e)
qed

lemma cubic_outside_right:
  assumes "3 \<le> length sp" and "sorted (map pt_x sp)" and "pt_x (sp ! (length sp - 1)) < x"
  shows "cubicSplineInterpolate (map pt_x sp) (map pt_y sp) x =
         pt_y (sp ! (length sp - 1))
         + (pt_y (sp ! (length sp - 1)) - pt_y (sp ! (length sp - 2)))
           / (pt_x (sp ! (length sp - 1)) - pt_x (sp ! (length sp - 2)))
           * (x - pt_x (sp ! (length sp - 1)))"
proof -
  have k: "0 < length sp" "length sp - 1 < length sp" "length sp - 2 < length sp"
    using assms(1) by linarith+
  have e: "map pt_x sp ! 0 = pt_x (sp ! 0)"
    "map pt_x sp ! (length sp - 1) = pt_x (sp ! (length sp - 1))"
    "map pt_y sp ! (length sp - 1) = pt_y (sp ! (length sp - 1))"
    "map pt_x sp ! (length sp - 2) = pt_x (sp ! (length sp - 2))"
    "map pt_y sp ! (length sp - 2) = pt_y (sp ! (length sp - 2))"
    using k by (simp_all only: nth_map)
  have "map pt_x sp \<noteq> []" using k(1) by (cases sp) simp_all
  from sorted_first_le_last[OF assms(2) this]
  have "pt_x (sp ! 0) \<le> pt_x (sp ! (length sp - 1))" using e by simp
  with assms(3) have o: "\<not> x \<le> pt_x (sp ! 0)" "pt_x (sp ! (length sp - 1)) \<le> x" by simp_all
  have "\<not> length (map pt_x sp) < 3" using assms(1) by simp
  moreover have "sp \<noteq> []" using k(1) by auto
  moreover have "Suc 0 < length sp" "length sp - 2 < length sp" using assms(1) by linarith+
  ultimately show ?thesis
    using o by (simp add: cubicSplineInterpolate_def Let_def nth_map)
qed

lemma manualBaseline_nth:
  assumes "2 \<le> length points" and "i < length data"
  shows "pt_y (manualBaseline data points interp ! i) =
         (if interp = CubicInterp \<and> 3 \<le> length points
          then cubicSplineInterpolate (map pt_x (sort_key pt_x points))
                 (map pt_y (sort_key pt_x points)) (pt_x (data ! i))
          else linearInterpolate (map pt_x (sort_key pt_x points))
                 (map pt_y (sort_key pt_x points)) (pt_x (data ! i)))"
  using assms by (simp add: manualBaseline_def Let_def)

text \<open>
  Claim C6, as amended. For at least two control points with distinct x and a query x
  outside the control-point span: in cubic mode with at least three control points the
  manual baseline is the boundary control point's y plus the boundary segment's slope times
  the distance from the boundary point; in linear mode (and in cubic mode with exactly two
  control points) it is the boundary control point's y, unchanged.
\<close>

theorem manualBaseline_outside_span:
  assumes len: "2 \<le> length points" and dist: "distinct (map pt_x points)"
    and i: "i < length data"
    and out: "pt_x (data ! i) < pt_x (sort_key pt_x points ! 0)
              \<or> pt_x (sort_key pt_x points ! (length points - 1)) < pt_x (data ! i)"
  shows "pt_y (manualBaseline data points interp ! i) =
     (let sp = sort_key pt_x points; n = length points; x = pt_x (data ! i) in
      if interp = CubicInterp \<and> 3 \<le> n then
        (if x < pt_x (sp ! 0)
         then pt_y (sp ! 0)
              + (pt_y (sp ! 1) - pt_y (sp ! 0)) / (pt_x (sp ! 1) - pt_x (sp ! 0)) * (x - pt_x (sp ! 0))
         else pt_y (sp ! (n - 1))
              + (pt_y (sp ! (n - 1)) - pt_y (sp ! (n - 2)))
                / (pt_x (sp ! (n - 1)) - pt_x (sp ! (n - 2))) * (x - pt_x (sp ! (n - 1))))
      else (if x < pt_x (sp ! 0) then pt_y (sp ! 0) else pt_y (sp ! (n - 1))))"
proof -
  define sp where "sp = sort_key pt_x points"
  define x where "x = pt_x (data ! i)"
  have n: "length sp = length points" by (simp add: sp_def)
  have srt: "sorted (map pt_x sp)" unfolding sp_def by (rule sorted_sort_key)
  have pos: "0 < length sp" using len n by linarith
  note mb = manualBaseline_nth[OF len i, of interp, folded sp_def x_def]
  note out' = out[folded sp_def x_def, folded n]
  have "pt_y (manualBaseline data points interp ! i) =
     (if interp = CubicInterp \<and> 3 \<le> length points then
        (if x < pt_x (sp ! 0)
         then pt_y (sp ! 0)
              + (pt_y (sp ! 1) - pt_y (sp ! 0)) / (pt_x (sp ! 1) - pt_x (sp ! 0)) * (x - pt_x (sp ! 0))
         else pt_y (sp ! (length sp - 1))
              + (pt_y (sp ! (length sp - 1)) - pt_y (sp ! (length sp - 2)))
                / (pt_x (sp ! (length sp - 1)) - pt_x (sp ! (length sp - 2)))
                * (x - pt_x (sp ! (length sp - 1))))
      else (if x < pt_x (sp ! 0) then pt_y (sp ! 0) else pt_y (sp ! (length sp - 1))))"
  proof (cases "interp = CubicInterp \<and> 3 \<le> length points")
    case True
    then have three: "3 \<le> length sp" using n by simp
    show ?thesis
    proof (cases "x < pt_x (sp ! 0)")
      case l: True
      show ?thesis
        unfolding mb if_P[OF True] using l by (simp add: cubic_outside_left[OF three l])
    next
      case l: False
      with out' have r: "pt_x (sp ! (length sp - 1)) < x" by simp
      show ?thesis
        unfolding mb if_P[OF True] using l by (simp add: cubic_outside_right[OF three srt r])
    qed
  next
    case False
    show ?thesis
    proof (cases "x < pt_x (sp ! 0)")
      case l: True
      show ?thesis
        unfolding mb if_not_P[OF False] using l by (simp add: linear_outside_left[OF pos l])
    next
      case l: False
      with out' have r: "pt_x (sp ! (length sp - 1)) < x" by simp
      show ?thesis
        unfolding mb if_not_P[OF False] using l by (simp add: linear_outside_right[OF pos srt r])
    qed
  qed
  then show ?thesis
    unfolding Let_def sp_def[symmetric] x_def[symmetric] n[symmetric] .
qed


theorem manualBaseline_outside_span_witness:
  "pt_y (manualBaseline [\<lparr>pt_x = 20, pt_y = 0\<rparr>]
           [\<lparr>pt_x = 10, pt_y = 5\<rparr>, \<lparr>pt_x = 0, pt_y = 0\<rparr>, \<lparr>pt_x = 2, pt_y = 4\<rparr>]
           CubicInterp ! 0) = 25 / 4
   \<and> pt_y (manualBaseline [\<lparr>pt_x = 20, pt_y = 0\<rparr>]
           [\<lparr>pt_x = 10, pt_y = 5\<rparr>, \<lparr>pt_x = 0, pt_y = 0\<rparr>, \<lparr>pt_x = 2, pt_y = 4\<rparr>]
           LinearInterp ! 0) = 5"
  using manualBaseline_outside_span
     [of "[\<lparr>pt_x = 10, pt_y = 5\<rparr>, \<lparr>pt_x = 0, pt_y = 0\<rparr>, \<lparr>pt_x = 2, pt_y = 4\<rparr>]"
         0 "[\<lparr>pt_x = 20, pt_y = 0\<rparr>]" CubicInterp]
    manualBaseline_outside_span
     [of "[\<lparr>pt_x = 10, pt_y = 5\<rparr>, \<lparr>pt_x = 0, pt_y = 0\<rparr>, \<lparr>pt_x = 2, pt_y = 4\<rparr>]"
         0 "[\<lparr>pt_x = 20, pt_y = 0\<rparr>]" LinearInterp]
  by (simp add: Let_def)

text \<open>
  Control points (0,0) and (10,5), linear mode, query x = 20: the source returns 5, the
  y of the last control point, not the linear extrapolation 5 + 0.5 * 10 = 10.
\<close>

theorem manualBaseline_linear_mode_counterexample:
  "pt_y (manualBaseline [\<lparr>pt_x = 20, pt_y = 0\<rparr>]
           [\<lparr>pt_x = 0, pt_y = 0\<rparr>, \<lparr>pt_x = 10, pt_y = 5\<rparr>] LinearInterp ! 0)
   \<noteq> 5 + (5 - 0) / (10 - 0) * (20 - 10)"
  by (simp add: manualBaseline_def linearInterpolate_def Let_def)

section \<open>The AsLS baseline never divides by zero\<close>

lemma clampDiag_magnitude: "1 / 10 ^ 14 \<le> \<bar>clampDiag v\<bar>"
  by (simp add: clampDiag_def)

lemma clampDiag_nonzero: "clampDiag v \<noteq> 0"
  using clampDiag_magnitude[of v] by auto

lemma checkedDiv_nonzero: "v \<noteq> 0 \<Longrightarrow> checkedDiv u v = Some (u / v)"
  by (simp add: checkedDiv_def)

lemma magnitude_nonzero: "1 / 10 ^ 14 \<le> \<bar>v::real\<bar> \<Longrightarrow> v \<noteq> 0"
  by auto

lemma checkedDiv_branch:
  "v \<noteq> 0 \<Longrightarrow>
   (if P then do { x \<leftarrow> checkedDiv u v; Some (f x) } else Some g)
   = Some (if P then f (u / v) else g)"
  by (simp add: checkedDiv_nonzero)

lemma pentaInit_inv:
  assumes "2 \<le> n"
  shows "\<exists>st. pentaInit b c d e n = Some st \<and> factorInv n 2 st"
proof -
  let ?d0 = "(replicate n (0::real))[0 := clampDiag (c ! 0)]"
  have d00: "?d0 ! 0 = clampDiag (c ! 0)" using assms by simp
  have nz0: "?d0 ! 0 \<noteq> 0" unfolding d00 by (rule clampDiag_nonzero)
  let ?s1 = "(replicate n (0::real))[0 := d ! 0 / ?d0 ! 0]"
  let ?s2 = "(replicate n (0::real))[0 := e ! 0 / ?d0 ! 0]"
  let ?d1 = "?d0[1 := clampDiag (c ! 1 - b ! 1 * ?s1 ! 0)]"
  have d11: "?d1 ! 1 = clampDiag (c ! 1 - b ! 1 * ?s1 ! 0)" using assms by simp
  have nz1: "?d1 ! 1 \<noteq> 0" unfolding d11 by (rule clampDiag_nonzero)
  have d10: "?d1 ! 0 = clampDiag (c ! 0)" using assms by simp
  let ?st = "\<lparr>diagD = ?d1, subL1 = ?s1[1 := (d ! 1 - b ! 1 * ?s2 ! 0) / ?d1 ! 1],
              subL2 = ?s2[1 := e ! 1 / ?d1 ! 1]\<rparr>"
  have "pentaInit b c d e n = Some ?st"
    unfolding pentaInit_def Let_def
    by (simp only: checkedDiv_nonzero[OF nz0] checkedDiv_nonzero[OF nz1] bind.bind_lunit)
  moreover have "factorInv n 2 ?st"
  proof -
    have "\<forall>k<2. 1 / 10 ^ 14 \<le> \<bar>?d1 ! k\<bar>"
    proof (intro allI impI)
      fix k :: nat assume "k < 2"
      then consider "k = 0" | "k = 1" by linarith
      then show "1 / 10 ^ 14 \<le> \<bar>?d1 ! k\<bar>"
      proof cases
        case 1 then show ?thesis unfolding 1 d10 by (simp only: clampDiag_magnitude)
      next
        case 2 then show ?thesis unfolding 2 d11 by (simp only: clampDiag_magnitude)
      qed
    qed
    then show ?thesis by (simp add: factorInv_def)
  qed
  ultimately show ?thesis by blast
qed

lemma pentaStep_inv:
  assumes i: "2 \<le> i" "i < n" and inv: "factorInv n i st"
  shows "\<exists>st'. pentaStep a b c d e n i st = Some st' \<and> factorInv n (Suc i) st'"
proof -
  from inv have len: "length (diagD st) = n" "length (subL1 st) = n" "length (subL2 st) = n"
    and mag: "\<And>k. k < i \<Longrightarrow> 1 / 10 ^ 14 \<le> \<bar>diagD st ! k\<bar>"
    by (simp_all add: factorInv_def)
  have nz2: "diagD st ! (i - 2) \<noteq> 0" and nz1: "diagD st ! (i - 1) \<noteq> 0"
    using mag[of "i - 2"] mag[of "i - 1"] i by (auto dest!: magnitude_nonzero)
  define li2 where "li2 = a ! i / diagD st ! (i - 2)"
  define li1 where "li1 = (b ! i - li2 * diagD st ! (i - 2) * subL1 st ! (i - 2)) / diagD st ! (i - 1)"
  define dD where "dD = (diagD st)[i := clampDiag (c ! i - li2 * diagD st ! (i - 2) * subL2 st ! (i - 2)
                                               - li1 * diagD st ! (i - 1) * subL1 st ! (i - 1))]"
  have dDi: "dD ! i = clampDiag (c ! i - li2 * diagD st ! (i - 2) * subL2 st ! (i - 2)
                                               - li1 * diagD st ! (i - 1) * subL1 st ! (i - 1))"
    using i len by (simp add: dD_def)
  have nzi: "dD ! i \<noteq> 0" unfolding dDi by (rule clampDiag_nonzero)
  define s1 where "s1 = (if i < n - 1 then (\<lambda>v. (subL1 st)[i := v]) ((d ! i - li1 * dD ! (i - 1) * subL2 st ! (i - 1)) / dD ! i)
                         else subL1 st)"
  define s2 where "s2 = (if i < n - 2 then (\<lambda>v. (subL2 st)[i := v]) (e ! i / dD ! i) else subL2 st)"
  let ?st' = "\<lparr>diagD = dD, subL1 = s1[i - 1 := li1], subL2 = s2[i - 2 := li2]\<rparr>"
  have "pentaStep a b c d e n i st = Some ?st'"
    unfolding pentaStep_def Let_def
    by (simp only: checkedDiv_nonzero[OF nz2] checkedDiv_nonzero[OF nz1] bind.bind_lunit
          li2_def[symmetric] li1_def[symmetric] dD_def[symmetric]
          checkedDiv_branch[OF nzi] s1_def[symmetric] s2_def[symmetric])
  moreover have "factorInv n (Suc i) ?st'"
  proof -
    have "1 / 10 ^ 14 \<le> \<bar>dD ! k\<bar>" if "k < Suc i" for k
    proof (cases "k = i")
      case True
      then show ?thesis unfolding True dDi by (simp only: clampDiag_magnitude)
    next
      case False
      with that have "k < i" by simp
      moreover have "dD ! k = diagD st ! k" using False by (simp add: dD_def)
      ultimately show ?thesis using mag by simp
    qed
    then show ?thesis
      using len by (simp add: factorInv_def dD_def s1_def s2_def)
  qed
  ultimately show ?thesis by blast
qed

lemma pentaLoop_inv:
  assumes "2 \<le> i" and "i \<le> n" and "factorInv n i st"
  shows "\<exists>st'. foldOption (pentaStep a b c d e n) [i..<n] st = Some st' \<and> factorInv n n st'"
  using assms
proof (induction "n - i" arbitrary: i st)
  case 0
  then show ?case by simp
next
  case (Suc k)
  then have lt: "i < n" by simp
  from pentaStep_inv[OF Suc.prems(1) lt Suc.prems(3)]
  obtain st' where st': "pentaStep a b c d e n i st = Some st'" "factorInv n (Suc i) st'"
    by blast
  have "\<exists>st''. foldOption (pentaStep a b c d e n) [Suc i..<n] st' = Some st'' \<and> factorInv n n st''"
    using Suc.hyps(2) lt Suc.prems(1) st'(2) by (intro Suc.hyps(1)) simp_all
  then show ?case
    using lt st'(1) by (simp add: upt_rec[of i n])
qed

text \<open>
  Every diagonal divisor of the factorisation has magnitude at least 1e-14, and the
  factorisation never divides by zero.
\<close>

lemma pentaFactor_inv:
  assumes "2 \<le> n"
  shows "\<exists>st. pentaFactor a b c d e n = Some st \<and> factorInv n n st"
proof -
  from pentaInit_inv[OF assms] obtain st0
    where st0: "pentaInit b c d e n = Some st0" "factorInv n 2 st0" by blast
  have "\<exists>st. foldOption (pentaStep a b c d e n) [2..<n] st0 = Some st \<and> factorInv n n st"
    by (rule pentaLoop_inv) (use assms st0(2) in simp_all)
  then obtain st
    where "foldOption (pentaStep a b c d e n) [2..<n] st0 = Some st" "factorInv n n st"
    by blast
  with st0(1) show ?thesis by (simp add: pentaFactor_def)
qed

lemma pentaScale_loop:
  assumes "\<forall>i\<in>set js. diagD st ! i \<noteq> 0"
  shows "\<exists>z'. foldOption (\<lambda>i z. do { v \<leftarrow> checkedDiv (z ! i) (diagD st ! i); Some (z[i := v]) }) js z
              = Some z' \<and> length z' = length z"
  using assms
proof (induction js arbitrary: z)
  case Nil
  then show ?case by simp
next
  case (Cons j js)
  then have nz: "diagD st ! j \<noteq> 0" by simp
  from Cons.IH[of "z[j := z ! j / diagD st ! j]"] Cons.prems
  show ?case by (simp add: checkedDiv_nonzero[OF nz])
qed

lemma pentaScale_Some:
  assumes "factorInv n n st"
  shows "\<exists>z'. pentaScale st z n = Some z' \<and> length z' = length z"
proof -
  have "\<forall>i\<in>set [0..<n]. diagD st ! i \<noteq> 0"
    using assms by (auto simp: factorInv_def dest!: magnitude_nonzero)
  from pentaScale_loop[OF this] show ?thesis by (simp add: pentaScale_def)
qed

lemma fold_update_state_length: "length (fold (\<lambda>i s. s[i := f i s]) js sm) = length sm"
  by (induction js arbitrary: sm) auto

lemma pentaBackSubst_length: "length (pentaBackSubst st z n) = n"
  by (simp add: pentaBackSubst_def Let_def fold_update_state_length)

lemma solvePentadiagonal_Some:
  "\<exists>x. solvePentadiagonal a b c d e rhs = Some x \<and> length x = length rhs"
proof (cases "length rhs < 3")
  case True
  then show ?thesis by (simp add: solvePentadiagonal_def)
next
  case False
  then have "2 \<le> length rhs" by simp
  from pentaFactor_inv[OF this] obtain st
    where st: "pentaFactor a b c d e (length rhs) = Some st" "factorInv (length rhs) (length rhs) st"
    by blast
  from pentaScale_Some[OF st(2)] obtain z
    where "pentaScale st (pentaForwardSubst st rhs (length rhs)) (length rhs) = Some z" by blast
  with False st(1) show ?thesis
    by (simp add: solvePentadiagonal_def Let_def pentaBackSubst_length)
qed

lemma whittakerSmooth_Some: "\<exists>z. whittakerSmooth y w lambda = Some z \<and> length z = length y"
proof (cases "length y < 3")
  case True
  then show ?thesis by (simp add: whittakerSmooth_def)
next
  case False
  let ?n = "length y"
  from solvePentadiagonal_Some[of "map (bandA ?n lambda) [0..<?n]" "map (bandB ?n lambda) [0..<?n]"
      "map (bandC ?n w lambda) [0..<?n]" "map (bandD ?n lambda) [0..<?n]"
      "map (bandE ?n lambda) [0..<?n]" "map (\<lambda>i. w ! i * y ! i) [0..<?n]"]
  show ?thesis using False by (simp add: whittakerSmooth_def Let_def)
qed

lemma aslsIterate_Some:
  "length (fst zw) = length y \<Longrightarrow>
   \<exists>z w. aslsIterate y lambda p k zw = Some (z, w) \<and> length z = length y"
proof (induction k arbitrary: zw)
  case 0
  then show ?case by (cases zw) simp
next
  case (Suc k)
  from whittakerSmooth_Some[of y "snd zw" lambda] obtain z
    where z: "whittakerSmooth y (snd zw) lambda = Some z" "length z = length y" by blast
  from Suc.IH[of "(z, map (\<lambda>i. if z ! i < y ! i then p else 1 - p) [0..<length y])"] z
  show ?case by simp
qed

lemma aslsBaseline_total:
  "\<exists>bl. aslsBaseline data lambda p iterations = Some bl \<and> length bl = length data"
proof (cases "length data < 3")
  case True
  then show ?thesis by (simp add: aslsBaseline_def)
next
  case False
  from aslsIterate_Some[of "(map pt_y data, replicate (length data) 1)" "map pt_y data" lambda p iterations]
  obtain z w where "aslsIterate (map pt_y data) lambda p iterations
                      (map pt_y data, replicate (length data) 1) = Some (z, w)"
    by auto
  with False show ?thesis by (simp add: aslsBaseline_def Let_def)
qed

text \<open>
  Claim C10. For every input of length at least 3, and for any lambda, p and iteration
  count, \<open>aslsBaseline\<close> (through \<open>whittakerSmooth\<close> and the pentadiagonal solver)
  returns a baseline without ever dividing by zero, because each diagonal divisor is forced
  to magnitude at least 1e-14 before it is used.
\<close>

theorem aslsBaseline_no_division_by_zero:
  assumes "3 \<le> length data"
  shows "\<exists>bl. aslsBaseline data lambda p iterations = Some bl \<and> length bl = length data"
  by (rule aslsBaseline_total)

theorem aslsBaseline_no_division_by_zero_witness:
  "\<exists>bl. aslsBaseline [\<lparr>pt_x = 0, pt_y = 0\<rparr>, \<lparr>pt_x = 1, pt_y = 5\<rparr>, \<lparr>pt_x = 2, pt_y = 0\<rparr>]
           100000 (1 / 100) 10 = Some bl
        \<and> length bl = length [\<lparr>pt_x = 0, pt_y = 0\<rparr>, \<lparr>pt_x = 1, pt_y = 5\<rparr>, \<lparr>pt_x = 2, pt_y = 0::real\<rparr>]"
  using aslsBaseline_no_division_by_zero
    [of "[\<lparr>pt_x = 0, pt_y = 0\<rparr>, \<lparr>pt_x = 1, pt_y = 5\<rparr>, \<lparr>pt_x = 2, pt_y = 0\<rparr>]" 100000 "1 / 100" 10]
  by simp

section \<open>Alignment of every baseline with its input\<close>

lemma map_nth_upt_x: "map (\<lambda>i. pt_x (data ! i)) [0..<length data] = map pt_x data"
  by (rule nth_equalityI) simp_all

lemma zeroBaseline_x: "map pt_x (zeroBaseline data) = map pt_x data"
  by (simp add: zeroBaseline_def)

lemma linearBaseline_x: "map pt_x (linearBaseline data s c) = map pt_x data"
  by (simp add: linearBaseline_def Let_def zeroBaseline_x split: prod.splits)

lemma polynomialBaseline_x: "map pt_x (polynomialBaseline data dg mi sg) = map pt_x data"
  by (simp add: polynomialBaseline_def Let_def linearBaseline_x)

lemma rollingBallBaseline_x: "map pt_x (rollingBallBaseline data r) = map pt_x data"
  by (simp add: rollingBallBaseline_def Let_def map_nth_upt_x o_def)

lemma shirleyBaseline_x: "map pt_x (shirleyBaseline data mi tol) = map pt_x data"
  by (simp add: shirleyBaseline_def Let_def map_nth_upt_x zeroBaseline_x o_def)

lemma manualBaseline_x: "map pt_x (manualBaseline data points interp) = map pt_x data"
  by (simp add: manualBaseline_def Let_def o_def)

lemma aslsBaseline_x:
  "aslsBaseline data lambda p k = Some bl \<Longrightarrow> map pt_x bl = map pt_x data"
  by (auto simp: aslsBaseline_def Let_def map_nth_upt_x o_def split: if_splits option.splits)

lemma methodBaseline_x: "map pt_x (methodBaseline rd options) = map pt_x rd"
proof (cases "bo_method options")
  case AslsM
  obtain bl where bl: "aslsBaseline rd (num_or (bo_lambda options) 100000)
                         (num_or (bo_p options) (1 / 100)) 10 = Some bl"
    using aslsBaseline_total by blast
  from aslsBaseline_x[OF bl] AslsM bl show ?thesis
    by (simp add: methodBaseline_def)
qed (simp_all add: methodBaseline_def zeroBaseline_x linearBaseline_x polynomialBaseline_x
       rollingBallBaseline_x shirleyBaseline_x manualBaseline_x o_def
       split: option.splits bool.splits)

lemma methodBaseline_length: "length (methodBaseline rd options) = length rd"
  using methodBaseline_x[of rd options] by (metis length_map)

lemma methodBaseline_range_irrelevant:
  "methodBaseline rd (options\<lparr>bo_calcRangeMin := lo, bo_calcRangeMax := hi\<rparr>) = methodBaseline rd options"
  by (cases "bo_method options") (auto simp: methodBaseline_def split: option.splits bool.splits)

lemma extendStep_fst:
  "\<exists>v. fst (extendStep data ri rb l r i (fb, k)) = fb @ [\<lparr>pt_x = pt_x (data ! i), pt_y = v\<rparr>]"
  by (simp add: extendStep_def)

lemma extend_loop_x:
  "k \<le> length data \<Longrightarrow>
   map pt_x (fst (fold (extendStep data ri rb l r) [0..<k] ([], 0))) = map pt_x (take k data)"
proof (induction k)
  case 0
  then show ?case by simp
next
  case (Suc k)
  obtain fb j where st: "fold (extendStep data ri rb l r) [0..<k] ([], 0) = (fb, j)"
    by (cases "fold (extendStep data ri rb l r) [0..<k] ([], 0)")
  from extendStep_fst[of data ri rb l r k fb j] obtain v
    where v: "fst (extendStep data ri rb l r k (fb, j)) = fb @ [\<lparr>pt_x = pt_x (data ! k), pt_y = v\<rparr>]"
    by blast
  from Suc st have "map pt_x fb = map pt_x (take k data)" by simp
  with Suc.prems v st show ?case
    by (simp add: take_Suc_conv_app_nth)
qed

lemma filter_full_length:
  "length (filter P xs) = length xs \<Longrightarrow> filter P xs = xs"
proof (induction xs)
  case Nil
  then show ?case by simp
next
  case (Cons x xs)
  have le: "length (filter P xs) \<le> length xs" by (rule length_filter_le)
  show ?case
  proof (cases "P x")
    case True
    with Cons show ?thesis by simp
  next
    case False
    with Cons.prems le show ?thesis by simp
  qed
qed

lemma calculateBaseline_x: "map pt_x (calculateBaseline data options) = map pt_x data"
proof -
  have ext: "map pt_x (fst (fold (extendStep data ri rb l r) [0..<length data] ([], 0))) = map pt_x data"
    for ri rb l r
    using extend_loop_x[of "length data" data ri rb l r] by simp
  have full: "map (pt_x \<circ> (!) data) (filter P [0..<length data]) = map pt_x data"
    if "length (filter P [0..<length data]) = length data" for P
  proof -
    from that have "filter P [0..<length data] = [0..<length data]"
      by (intro filter_full_length) simp
    then show ?thesis by (simp add: map_nth_upt_x o_def)
  qed
  show ?thesis
    unfolding calculateBaseline_def inRangeIndices_def Let_def
    by (auto simp: zeroBaseline_x methodBaseline_x ext full split: prod.splits if_splits)
qed

lemma pos_nth:
  assumes "sorted_wrt (<) xs" and "k \<in> set xs"
  shows "length (filter (\<lambda>j. j < k) xs) < length xs \<and> xs ! length (filter (\<lambda>j. j < k) xs) = (k::nat)"
  using assms
proof (induction xs)
  case Nil
  then show ?case by simp
next
  case (Cons x xs)
  show ?case
  proof (cases "k = x")
    case True
    have "filter (\<lambda>j. j < x) xs = []"
      using Cons.prems(1) by (auto simp: filter_empty_conv)
    with True show ?thesis by simp
  next
    case False
    with Cons.prems have "k \<in> set xs" and "x < k" by auto
    with Cons show ?thesis by simp
  qed
qed

lemma pos_Suc:
  assumes "distinct xs"
  shows "length (filter (\<lambda>j. j < Suc k) xs) =
         length (filter (\<lambda>j. j < k) xs) + (if k \<in> set xs then 1 else 0)"
  using assms
proof (induction xs)
  case Nil
  then show ?case by simp
next
  case (Cons x xs)
  then show ?case by (auto simp: less_Suc_eq)
qed

lemma extend_loop_y:
  assumes srt: "sorted_wrt (<) ri" and len: "length rb = length ri" and ne: "ri \<noteq> []"
    and k: "k \<le> length data"
  shows "\<exists>fb. fold (extendStep data ri rb (pt_y (rb ! 0)) (pt_y (rb ! (length rb - 1)))) [0..<k] ([], 0)
              = (fb, length (filter (\<lambda>j. j < k) ri))
            \<and> length fb = k \<and> (\<forall>i<k. pt_y (fb ! i) = extended_y ri rb i)"
  using k
proof (induction k)
  case 0
  then show ?case by simp
next
  case (Suc k)
  let ?step = "extendStep data ri rb (pt_y (rb ! 0)) (pt_y (rb ! (length rb - 1)))"
  let ?r = "length (filter (\<lambda>j. j < k) ri)"
  have "k \<le> length data" using Suc.prems by simp
  from Suc.IH[OF this] obtain fb where fb: "fold ?step [0..<k] ([], 0) = (fb, ?r)" "length fb = k"
    "\<forall>i<k. pt_y (fb ! i) = extended_y ri rb i" by blast
  have dist: "distinct ri" using srt by (simp add: strict_sorted_iff)
  have ext: "\<forall>i<Suc k. pt_y ((fb @ [\<lparr>pt_x = pt_x (data ! k), pt_y = extended_y ri rb k\<rparr>]) ! i)
                        = extended_y ri rb i"
  proof (intro allI impI)
    fix i assume "i < Suc k"
    then consider "i < k" | "i = k" by linarith
    then show "pt_y ((fb @ [\<lparr>pt_x = pt_x (data ! k), pt_y = extended_y ri rb k\<rparr>]) ! i)
               = extended_y ri rb i"
    proof cases
      case 1
      then show ?thesis using fb(2,3) by (simp add: nth_append)
    next
      case 2
      then show ?thesis using fb(2) by (simp add: nth_append)
    qed
  qed
  have len': "length (fb @ [\<lparr>pt_x = pt_x (data ! k), pt_y = extended_y ri rb k\<rparr>]) = Suc k"
    using fb(2) by simp
  have unroll: "fold ?step [0..<Suc k] ([], 0) = ?step k (fb, ?r)"
    by (simp only: upt_Suc_append[OF le0] fold_append o_apply fb(1) fold_simps)
  have "?step k (fb, ?r) = (fb @ [\<lparr>pt_x = pt_x (data ! k), pt_y = extended_y ri rb k\<rparr>],
                            length (filter (\<lambda>j. j < Suc k) ri))"
  proof (cases "k \<in> set ri")
    case True
    from pos_nth[OF srt True] have c: "?r < length ri \<and> k = ri ! ?r" by simp
    have e: "extended_y ri rb k = pt_y (rb ! ?r)"
      by (simp only: extended_y_def if_P[OF True])
    have p: "length (filter (\<lambda>j. j < Suc k) ri) = ?r + 1"
      by (simp only: pos_Suc[OF dist] if_P[OF True])
    show ?thesis
      by (simp only: extendStep_def prod.case if_P[OF c] e p)
  next
    case False
    have c: "\<not> (?r < length ri \<and> k = ri ! ?r)"
    proof
      assume a: "?r < length ri \<and> k = ri ! ?r"
      then have "ri ! ?r \<in> set ri" by (intro nth_mem) (rule conjunct1)
      with a False show False by simp
    qed
    have p: "length (filter (\<lambda>j. j < Suc k) ri) = ?r"
      by (simp only: pos_Suc[OF dist] if_not_P[OF False] add_0_right)
    show ?thesis
    proof (cases "k < ri ! 0")
      case l: True
      have e: "extended_y ri rb k = pt_y (rb ! 0)"
        by (simp only: extended_y_def if_not_P[OF False] if_P[OF l])
      show ?thesis
        by (simp only: extendStep_def prod.case if_not_P[OF c] if_P[OF l] e p)
    next
      case l: False
      have e: "extended_y ri rb k = pt_y (rb ! (length rb - 1))"
        by (simp only: extended_y_def if_not_P[OF False] if_not_P[OF l])
      show ?thesis
        by (simp only: extendStep_def prod.case if_not_P[OF c] if_not_P[OF l] e p)
    qed
  qed
  with unroll have "fold ?step [0..<Suc k] ([], 0) =
      (fb @ [\<lparr>pt_x = pt_x (data ! k), pt_y = extended_y ri rb k\<rparr>],
       length (filter (\<lambda>j. j < Suc k) ri))" by (rule trans)
  with ext len' show ?case by (intro exI conjI)
qed

lemma pos_upt: "i < n \<Longrightarrow> length (filter (\<lambda>j. j < i) [0..<n]) = i"
proof -
  assume "i < n"
  then have "filter (\<lambda>j. j < i) [0..<n] = [0..<i]"
    by (induction n) (auto simp: less_Suc_eq)
  then show ?thesis by simp
qed

lemma inRangeIndices_sorted: "sorted_wrt (<) (inRangeIndices lo hi data)"
  unfolding inRangeIndices_def by (rule sorted_wrt_filter) simp

lemma inRangeIndices_no_range: "inRangeIndices None None data = [0..<length data]"
  by (simp add: inRangeIndices_def inRange_def)

lemma inRangeIndices_full:
  "length (inRangeIndices lo hi data) = length data \<Longrightarrow> inRangeIndices lo hi data = [0..<length data]"
  unfolding inRangeIndices_def by (rule filter_full_length) simp

lemma calculateBaseline_no_range:
  "bo_calcRangeMin options = None \<Longrightarrow> bo_calcRangeMax options = None \<Longrightarrow>
   calculateBaseline data options =
     (if bo_method options = NoBaseline then zeroBaseline data else methodBaseline data options)"
  by (simp add: calculateBaseline_def Let_def)

lemma extended_y_upt:
  "i < n \<Longrightarrow> extended_y [0..<n] rb i = pt_y (rb ! i)"
  by (simp add: extended_y_def pos_upt)

lemma extended_y_zero:
  assumes "sorted_wrt (<) ri" and "2 \<le> length ri"
  shows "extended_y ri (zeroBaseline (map f ri)) i = 0"
proof (cases "i \<in> set ri")
  case True
  from pos_nth[OF assms(1) True] have "length (filter (\<lambda>j. j < i) ri) < length ri" by simp
  with True show ?thesis by (simp add: extended_y_def zeroBaseline_def)
next
  case False
  have "0 < length ri" "length ri - 1 < length ri" using assms(2) by linarith+
  with False show ?thesis by (simp add: extended_y_def zeroBaseline_def)
qed

lemma calculateBaseline_fallback:
  assumes "length (inRangeIndices (bo_calcRangeMin options) (bo_calcRangeMax options) data) < 2"
  shows "calculateBaseline data options =
         calculateBaseline data (options\<lparr>bo_calcRangeMin := None, bo_calcRangeMax := None\<rparr>)"
proof (cases "bo_method options = NoBaseline")
  case True
  then show ?thesis by (simp add: calculateBaseline_def)
next
  case False
  have rhs: "calculateBaseline data (options\<lparr>bo_calcRangeMin := None, bo_calcRangeMax := None\<rparr>)
             = methodBaseline data options"
    using False by (simp add: calculateBaseline_no_range methodBaseline_range_irrelevant)
  show ?thesis
  proof (cases "bo_calcRangeMin options \<noteq> None \<or> bo_calcRangeMax options \<noteq> None")
    case True
    have "calculateBaseline data options = methodBaseline data options"
      using False True assms by (auto simp: calculateBaseline_def Let_def)
    with rhs show ?thesis by simp
  next
    case nr: False
    then have "calculateBaseline data options = methodBaseline data options"
      using False by (simp add: calculateBaseline_no_range)
    with rhs show ?thesis by simp
  qed
qed

lemma calculateBaseline_extended:
  assumes two: "2 \<le> length (inRangeIndices (bo_calcRangeMin options) (bo_calcRangeMax options) data)"
    and i: "i < length data"
  shows "pt_y (calculateBaseline data options ! i) =
         extended_y (inRangeIndices (bo_calcRangeMin options) (bo_calcRangeMax options) data)
           (calculateBaseline
              (map (\<lambda>i. data ! i)
                 (inRangeIndices (bo_calcRangeMin options) (bo_calcRangeMax options) data))
              (options\<lparr>bo_calcRangeMin := None, bo_calcRangeMax := None\<rparr>)) i"
proof -
  define ri where "ri = inRangeIndices (bo_calcRangeMin options) (bo_calcRangeMax options) data"
  define rd where "rd = map (\<lambda>i. data ! i) ri"
  define opts' where "opts' = options\<lparr>bo_calcRangeMin := None, bo_calcRangeMax := None\<rparr>"
  have srt: "sorted_wrt (<) ri" unfolding ri_def by (rule inRangeIndices_sorted)
  have two': "2 \<le> length ri" using two by (simp add: ri_def)
  have rb: "calculateBaseline rd opts' =
            (if bo_method options = NoBaseline then zeroBaseline rd else methodBaseline rd options)"
    unfolding opts'_def by (simp add: calculateBaseline_no_range methodBaseline_range_irrelevant)
  have "pt_y (calculateBaseline data options ! i) = extended_y ri (calculateBaseline rd opts') i"
  proof (cases "bo_method options = NoBaseline")
    case True
    have "calculateBaseline data options = zeroBaseline data"
      using True by (simp add: calculateBaseline_def)
    then have "pt_y (calculateBaseline data options ! i) = 0"
      using i by (simp add: zeroBaseline_def)
    moreover have "calculateBaseline rd opts' = zeroBaseline (map (\<lambda>i. data ! i) ri)"
      using True rb by (simp add: rd_def)
    then have "extended_y ri (calculateBaseline rd opts') i = 0"
      by (simp only: extended_y_zero[OF srt two'])
    ultimately show ?thesis by simp
  next
    case False
    then have rb': "calculateBaseline rd opts' = methodBaseline rd options" by (simp add: rb)
    show ?thesis
    proof (cases "(bo_calcRangeMin options \<noteq> None \<or> bo_calcRangeMax options \<noteq> None)
                  \<and> length ri \<noteq> length data")
      case ext: True
      let ?rbl = "methodBaseline rd options"
      have len: "length ?rbl = length ri" by (simp add: methodBaseline_length rd_def)
      have ne: "ri \<noteq> []" using two' by auto
      have pos: "0 < length ?rbl" using len two' by linarith
      have cb: "calculateBaseline data options =
                fst (fold (extendStep data ri ?rbl (pt_y (?rbl ! 0)) (pt_y (?rbl ! (length ?rbl - 1))))
                          [0..<length data] ([], 0))"
        using False ext two' pos
        by (auto simp: calculateBaseline_def Let_def ri_def[symmetric] rd_def[symmetric])
      from extend_loop_y[OF srt len ne order_refl, of data]
      obtain fb where "fold (extendStep data ri ?rbl (pt_y (?rbl ! 0)) (pt_y (?rbl ! (length ?rbl - 1))))
                          [0..<length data] ([], 0) = (fb, length (filter (\<lambda>j. j < length data) ri))"
        and "\<forall>i<length data. pt_y (fb ! i) = extended_y ri ?rbl i"
        by blast
      with cb i show ?thesis by (simp add: rb')
    next
      case noext: False
      have full: "ri = [0..<length data]"
      proof (cases "bo_calcRangeMin options \<noteq> None \<or> bo_calcRangeMax options \<noteq> None")
        case True
        with noext have "length ri = length data" by auto
        then show ?thesis unfolding ri_def by (rule inRangeIndices_full)
      next
        case False
        then show ?thesis by (simp add: ri_def inRangeIndices_no_range)
      qed
      then have rd: "rd = data" by (simp add: rd_def map_nth)
      have "calculateBaseline data options = methodBaseline data options"
        using False noext two' full
        by (auto simp: calculateBaseline_def Let_def ri_def[symmetric] map_nth)
      then show ?thesis
        using i by (simp add: rb'[unfolded rd] rd full extended_y_upt)
    qed
  qed
  then show ?thesis by (simp only: ri_def rd_def opts'_def)
qed

text \<open>
  Claim C3, as amended. For every dataset and every options value, the computed baseline has
  the length of its input and the same x at every index. When fewer than two samples lie in
  the calc-range, the range is ignored and the baseline is the one computed without a range.
  When at least two samples lie in it, a sample in the range gets the value of the baseline
  computed on the in-range samples alone, a sample before the first in-range sample gets the
  first value of that baseline and every other sample gets its last value.
\<close>

theorem calculateBaseline_aligned_and_extended:
  "length (calculateBaseline data options) = length data
   \<and> map pt_x (calculateBaseline data options) = map pt_x data
   \<and> (length (inRangeIndices (bo_calcRangeMin options) (bo_calcRangeMax options) data) < 2
        \<longrightarrow> calculateBaseline data options =
            calculateBaseline data (options\<lparr>bo_calcRangeMin := None, bo_calcRangeMax := None\<rparr>))
   \<and> (2 \<le> length (inRangeIndices (bo_calcRangeMin options) (bo_calcRangeMax options) data)
        \<longrightarrow> (\<forall>i<length data.
              pt_y (calculateBaseline data options ! i) =
              extended_y (inRangeIndices (bo_calcRangeMin options) (bo_calcRangeMax options) data)
                (calculateBaseline
                   (map (\<lambda>i. data ! i)
                      (inRangeIndices (bo_calcRangeMin options) (bo_calcRangeMax options) data))
                   (options\<lparr>bo_calcRangeMin := None, bo_calcRangeMax := None\<rparr>)) i))"
proof (intro conjI impI allI)
  show "map pt_x (calculateBaseline data options) = map pt_x data"
    by (rule calculateBaseline_x)
  then show "length (calculateBaseline data options) = length data"
    by (metis length_map)
qed (simp_all only: calculateBaseline_fallback calculateBaseline_extended)

theorem calculateBaseline_aligned_and_extended_witness:
  "pt_y (calculateBaseline
      [\<lparr>pt_x = 0, pt_y = 0\<rparr>, \<lparr>pt_x = 1, pt_y = 1\<rparr>, \<lparr>pt_x = 2, pt_y = 5\<rparr>,
       \<lparr>pt_x = 3, pt_y = 2\<rparr>, \<lparr>pt_x = 4, pt_y = 1\<rparr>]
      \<lparr>bo_method = LinearM, bo_autoBaseline = None, bo_optimizeSimultaneously = None,
       bo_degree = None, bo_lambda = None, bo_p = None, bo_radius = None,
       bo_shirleyIterations = None, bo_shirleyTolerance = None, bo_slope = None,
       bo_intercept = None, bo_calcRangeMin = Some (3 / 2), bo_calcRangeMax = Some 3,
       bo_manualPoints = None, bo_manualInterp = None, bo_coeffs = None\<rparr> ! 4) = 2"
proof -
  let ?D = "[\<lparr>pt_x = 0, pt_y = 0\<rparr>, \<lparr>pt_x = 1, pt_y = 1\<rparr>, \<lparr>pt_x = 2, pt_y = 5\<rparr>,
       \<lparr>pt_x = 3, pt_y = 2\<rparr>, \<lparr>pt_x = 4, pt_y = 1::real\<rparr>]"
  let ?o = "\<lparr>bo_method = LinearM, bo_autoBaseline = None, bo_optimizeSimultaneously = None,
       bo_degree = None, bo_lambda = None, bo_p = None, bo_radius = None,
       bo_shirleyIterations = None, bo_shirleyTolerance = None, bo_slope = None,
       bo_intercept = None, bo_calcRangeMin = Some (3 / 2), bo_calcRangeMax = Some 3,
       bo_manualPoints = None, bo_manualInterp = None, bo_coeffs = None\<rparr>"
  have idx: "inRangeIndices (Some (3 / 2)) (Some 3) ?D = [2, 3]"
    by (simp add: inRangeIndices_def inRange_def upt_rec[of _ "numeral _"] upt_rec[of _ "Suc _"]
          eval_nat_numeral)
  have "pt_y (calculateBaseline ?D ?o ! 4) =
        extended_y [2, 3]
          (calculateBaseline (map (\<lambda>i. ?D ! i) [2, 3])
             (?o\<lparr>bo_calcRangeMin := None, bo_calcRangeMax := None\<rparr>)) 4"
    using calculateBaseline_aligned_and_extended[of ?D ?o] by (simp add: idx)
  also have "\<dots> = 2"
    by (simp add: extended_y_def calculateBaseline_no_range methodBaseline_def linearBaseline_def)
  finally show ?thesis .
qed

text \<open>
  Three samples (0,0), (1,1), (2,2), linear method, calc-range from 1.5: only one sample is
  in range, so the source falls back to the whole dataset and returns the line through the
  end points. The samples at x = 0 and x = 1 are both outside the range, yet their baseline
  values 0 and 1 differ: the baseline is not flat there.
\<close>

theorem calculateBaseline_flat_extension_counterexample:
  "pt_x ([\<lparr>pt_x = 0, pt_y = 0\<rparr>, \<lparr>pt_x = 1, pt_y = 1\<rparr>, \<lparr>pt_x = 2, pt_y = 2\<rparr>] ! 0) < 3 / 2
   \<and> pt_x ([\<lparr>pt_x = 0, pt_y = 0\<rparr>, \<lparr>pt_x = 1, pt_y = 1\<rparr>, \<lparr>pt_x = 2, pt_y = 2\<rparr>] ! 1) < 3 / 2
   \<and> pt_y (calculateBaseline
      [\<lparr>pt_x = 0, pt_y = 0\<rparr>, \<lparr>pt_x = 1, pt_y = 1\<rparr>, \<lparr>pt_x = 2, pt_y = 2\<rparr>]
      \<lparr>bo_method = LinearM, bo_autoBaseline = None, bo_optimizeSimultaneously = None,
       bo_degree = None, bo_lambda = None, bo_p = None, bo_radius = None,
       bo_shirleyIterations = None, bo_shirleyTolerance = None, bo_slope = None,
       bo_intercept = None, bo_calcRangeMin = Some (3 / 2), bo_calcRangeMax = None,
       bo_manualPoints = None, bo_manualInterp = None, bo_coeffs = None\<rparr> ! 0)
     \<noteq> pt_y (calculateBaseline
      [\<lparr>pt_x = 0, pt_y = 0\<rparr>, \<lparr>pt_x = 1, pt_y = 1\<rparr>, \<lparr>pt_x = 2, pt_y = 2\<rparr>]
      \<lparr>bo_method = LinearM, bo_autoBaseline = None, bo_optimizeSimultaneously = None,
       bo_degree = None, bo_lambda = None, bo_p = None, bo_radius = None,
       bo_shirleyIterations = None, bo_shirleyTolerance = None, bo_slope = None,
       bo_intercept = None, bo_calcRangeMin = Some (3 / 2), bo_calcRangeMax = None,
       bo_manualPoints = None, bo_manualInterp = None, bo_coeffs = None\<rparr> ! 1)"
proof -
  let ?D = "[\<lparr>pt_x = 0, pt_y = 0\<rparr>, \<lparr>pt_x = 1, pt_y = 1\<rparr>, \<lparr>pt_x = 2, pt_y = 2::real\<rparr>]"
  have idx: "inRangeIndices (Some (3 / 2)) None ?D = [2]"
    by (simp add: inRangeIndices_def inRange_def upt_rec[of _ "numeral _"] upt_rec[of _ "Suc _"]
          eval_nat_numeral)
  show ?thesis
    by (simp add: calculateBaseline_def idx Let_def methodBaseline_def linearBaseline_def)
qed

section \<open>The optimizer: totality and the singular case\<close>

lemma lmDampedSystem_Some:
  assumes "x \<noteq> []" and "params \<noteq> []"
  shows "\<exists>H JtR. lmDampedSystem x mf params residuals lambda = Some (H, JtR)"
proof -
  let ?J = "calculateJacobian x params mf"
  have J: "?J \<noteq> []" and J0: "length (?J ! 0) = length params"
    using assms by (simp_all add: calculateJacobian_def Let_def)
  then obtain Jt where Jt: "transposeM ?J = Some Jt" "Jt \<noteq> []"
    using assms(2) by (simp add: transposeM_def Let_def)
  with J obtain JtJ where "matrixMultiply Jt ?J = Some JtJ"
    by (simp add: matrixMultiply_def Let_def)
  with Jt show ?thesis by (simp add: lmDampedSystem_def Let_def)
qed

lemma lmIteration_Some:
  assumes "x \<noteq> []" and "lm_params st \<noteq> []"
  shows "\<exists>r. lmIteration x y mf tol up down st = Some r
             \<and> length (lm_params (stepState r)) = length (lm_params st)
             \<and> lm_jacobianEvals (stepState r) = lm_jacobianEvals st + 1"
proof -
  from lmDampedSystem_Some[OF assms, of mf "lm_residuals st" "lm_lambda st"]
  obtain H JtR where sys: "lmDampedSystem x mf (lm_params st) (lm_residuals st) (lm_lambda st)
                            = Some (H, JtR)" by blast
  show ?thesis
    by (cases "solveLinear H JtR") (simp_all add: lmIteration_def sys Let_def stepState_def)
qed

lemma lmLoop_Some:
  assumes "x \<noteq> []" and "lm_params st \<noteq> []"
  shows "\<exists>st'. lmLoop (lmIteration x y mf tol up down) fuel st = Some st'
               \<and> length (lm_params st') = length (lm_params st)"
  using assms(2)
proof (induction fuel arbitrary: st)
  case 0
  then show ?case by simp
next
  case (Suc fuel)
  from lmIteration_Some[OF assms(1) Suc.prems, of y mf tol up down]
  obtain r where r: "lmIteration x y mf tol up down st = Some r"
    "length (lm_params (stepState r)) = length (lm_params st)" by blast
  show ?case
  proof (cases r)
    case (Break s)
    with r show ?thesis by (simp add: stepState_def)
  next
    case (Continue s)
    with r have s: "length (lm_params s) = length (lm_params st)" by (simp add: stepState_def)
    with Suc.prems have "lm_params s \<noteq> []" by auto
    from Suc.IH[OF this] s r(1) Continue show ?thesis by simp
  qed
qed

lemma levenbergMarquardt_Some:
  assumes "x \<noteq> []" and "initialParams \<noteq> []"
  shows "\<exists>res. levenbergMarquardt x y initialParams mf options = Some res
               \<and> length (lmr_params res) = length initialParams"
proof -
  let ?st0 = "lmInitialState x y initialParams mf (num_nullish (lmo_lambdaInit options) (1 / 1000))"
  have p0: "lm_params ?st0 = initialParams" by (simp add: lmInitialState_def Let_def)
  then have "lm_params ?st0 \<noteq> []" using assms(2) by simp
  from lmLoop_Some[OF assms(1) this] p0 show ?thesis
    unfolding levenbergMarquardt_def Let_def by (metis (no_types, lifting) option.simps(5) LMResult.select_convs(1))
qed

text \<open>
  Claim C2, as amended. In an iteration whose damped normal equations cannot be solved, the
  optimizer multiplies lambda by lambdaUp, leaves parameters, residuals and chi-squared
  unchanged and goes on to the next iteration; the failed iteration counts as an iteration,
  and the next iteration evaluates the Jacobian again, at the same parameters.
\<close>

theorem lmIteration_singular_retry:
  assumes sys: "lmDampedSystem x mf (lm_params st) (lm_residuals st) (lm_lambda st) = Some (H, JtR)"
    and sing: "solveLinear H JtR = None"
  shows "lmIteration x y mf tol up down st =
           Some (Continue (st\<lparr>lm_lambda := lm_lambda st * up,
                               lm_iterations := lm_iterations st + 1,
                               lm_jacobianEvals := lm_jacobianEvals st + 1\<rparr>))
       \<and> (\<forall>r. lmIteration x y mf tol up down
                 (st\<lparr>lm_lambda := lm_lambda st * up, lm_iterations := lm_iterations st + 1,
                      lm_jacobianEvals := lm_jacobianEvals st + 1\<rparr>) = Some r
              \<longrightarrow> lm_jacobianEvals (stepState r) = lm_jacobianEvals st + 2)"
proof
  show "lmIteration x y mf tol up down st =
           Some (Continue (st\<lparr>lm_lambda := lm_lambda st * up,
                               lm_iterations := lm_iterations st + 1,
                               lm_jacobianEvals := lm_jacobianEvals st + 1\<rparr>))"
    by (simp add: lmIteration_def sys sing Let_def)
next
  let ?st' = "st\<lparr>lm_lambda := lm_lambda st * up, lm_iterations := lm_iterations st + 1,
                  lm_jacobianEvals := lm_jacobianEvals st + 1\<rparr>"
  have "lm_jacobianEvals (stepState r) = lm_jacobianEvals st + 2"
    if "lmIteration x y mf tol up down ?st' = Some r" for r
    using that
    by (auto simp: lmIteration_def Let_def stepState_def split: option.splits prod.splits if_splits)
  then show "\<forall>r. lmIteration x y mf tol up down ?st' = Some r
              \<longrightarrow> lm_jacobianEvals (stepState r) = lm_jacobianEvals st + 2" by blast
qed


theorem lmIteration_singular_retry_witness:
  "lmIteration [0] [1] (\<lambda>x p. map (\<lambda>xi. 0) x) (1 / 10 ^ 8) 10 (1 / 10)
     (lmInitialState [0] [1] [0] (\<lambda>x p. map (\<lambda>xi. 0) x) (1 / 1000))
   = Some (Continue \<lparr>lm_params = [0], lm_residuals = [1], lm_chiSquared = 1, lm_lambda = 1 / 100,
                     lm_iterations = 1, lm_converged = False, lm_jacobianEvals = 1\<rparr>)"
proof -
  let ?f = "\<lambda>(x::real list) (p::real list). map (\<lambda>xi. 0::real) x"
  let ?st = "lmInitialState [0] [1] [0] ?f (1 / 1000)"
  have sys: "lmDampedSystem [0] ?f (lm_params ?st) (lm_residuals ?st) (lm_lambda ?st)
             = Some ([[1 / 10 ^ 13]], [0])"
    by code_simp
  have sing: "solveLinear [[1 / 10 ^ 13]] [0] = None"
    by code_simp
  have st: "?st\<lparr>lm_lambda := lm_lambda ?st * 10, lm_iterations := lm_iterations ?st + 1,
                 lm_jacobianEvals := lm_jacobianEvals ?st + 1\<rparr>
            = \<lparr>lm_params = [0], lm_residuals = [1], lm_chiSquared = 1, lm_lambda = 1 / 100,
                     lm_iterations = 1, lm_converged = False, lm_jacobianEvals = 1\<rparr>"
    by (simp add: lmInitialState_def)
  from lmIteration_singular_retry[OF sys sing, of "[1]" "1 / 10 ^ 8" 10 "1 / 10"]
  show ?thesis unfolding st by (rule conjunct1)
qed

text \<open>
  A constant model on one sample: the first iteration has the 1x1 system with diagonal
  1e-13, below the pivot threshold, so the solve fails. The run of two iterations (the
  failed one and its retry) has evaluated the Jacobian twice.
\<close>

theorem lmIteration_retry_recomputes_jacobian_counterexample:
  "(case lmDampedSystem [0] (\<lambda>x p. map (\<lambda>xi. 0) x) [0] [1] (1 / 1000) of
      None \<Rightarrow> False
    | Some (H, JtR) \<Rightarrow> solveLinear H JtR = None)
   \<and> map_option lm_jacobianEvals
        (lmLoop (lmIteration [0] [1] (\<lambda>x p. map (\<lambda>xi. 0) x) (1 / 10 ^ 8) 10 (1 / 10)) 2
           (lmInitialState [0] [1] [0] (\<lambda>x p. map (\<lambda>xi. 0) x) (1 / 1000))) = Some 2"
  by code_simp

section \<open>The fit orchestrator\<close>

lemma packParams_nonempty: "components \<noteq> [] \<Longrightarrow> packParams components bo \<noteq> []"
  by (cases components) (simp_all add: packParams_def)

lemma fitOptimize_Some:
  assumes "data \<noteq> []" and "components \<noteq> []"
  shows "\<exists>res. fitOptimize data components baseline bo maxIterations = Some res"
proof -
  have "map pt_x data \<noteq> []" using assms(1) by simp
  from levenbergMarquardt_Some[OF this packParams_nonempty[OF assms(2)]]
  show ?thesis unfolding fitOptimize_def Let_def by blast
qed

lemma fitPeaks_nonempty:
  assumes "data \<noteq> []" and "components \<noteq> []"
  shows "\<exists>lmResult ob bp.
           fitOptimize data components baseline bo maxIterations = Some lmResult
           \<and> optimizedBaselineOf components bo (map pt_x data) (map pt_y data) (lmr_params lmResult)
               = (ob, bp)
           \<and> fitPeaks data components baseline bo maxIterations =
               Some (buildFitResult data components baseline (numBaselineParams bo) lmResult ob bp)"
proof -
  from fitOptimize_Some[OF assms(1,2)] obtain lmResult
    where lm: "fitOptimize data components baseline bo maxIterations = Some lmResult" by blast
  obtain ob bp
    where "optimizedBaselineOf components bo (map pt_x data) (map pt_y data) (lmr_params lmResult)
           = (ob, bp)" by (rule prod.exhaust)
  with lm assms(1,2) show ?thesis by (auto simp: fitPeaks_def)
qed

lemma unpackParams_clamped:
  assumes "c \<in> set (unpackParams components params)"
  shows "1 / 100 \<le> pc_width c \<and> 0 \<le> pc_amplitude c \<and> pc_weight c = 1"
  using assms by (auto simp: unpackParams_def)

lemma unpackParams_length: "length (unpackParams components params) = length components"
  by (simp add: unpackParams_def)

lemma fitOptimize_without_iterations:
  "map_option lmr_params (fitOptimize data components baseline bo 0) = Some (packParams components bo)"
  by (simp add: fitOptimize_def levenbergMarquardt_def lmInitialState_def Let_def)

subsection \<open>Arithmetic of the result statistics\<close>
















subsection \<open>The final baseline and the corrected curve\<close>












text \<open>
  Claim C5. For an empty dataset or an empty component list, \<open>fitPeaks\<close> returns (without
  throwing) a result whose curves are empty, whose statistics are all zero, whose parameters
  are the input components, whose converged flag is false and whose iteration count is 0.
\<close>

theorem fitPeaks_degenerate:
  assumes "data = [] \<or> components = []"
  shows "\<exists>r. fitPeaks data components baseline bo maxIterations = Some r
           \<and> fr_fittedData r = [] \<and> fr_residuals r = [] \<and> fr_components r = []
           \<and> fr_baseline r = [] \<and> fr_baselineCorrectedData r = []
           \<and> fr_rSquared r = Fin 0 \<and> fr_adjustedRSquared r = Fin 0 \<and> fr_rmse r = Fin 0
           \<and> fr_chiSquared r = Fin 0 \<and> fr_reducedChiSquared r = Fin 0
           \<and> fr_aic r = Fin 0 \<and> fr_bic r = Fin 0
           \<and> fr_parameters r = components \<and> \<not> fr_converged r \<and> fr_iterations r = 0"
  using assms by (auto simp: fitPeaks_def emptyFitResult_def)

theorem fitPeaks_degenerate_witness:
  "\<exists>r. fitPeaks [] [\<lparr>pc_id = 1, pc_profile = Gaussian, pc_center = 1, pc_amplitude = 1,
                      pc_width = 1, pc_weight = 1, pc_sigma = None, pc_gamma = None\<rparr>] [] None 200
          = Some r
      \<and> fr_fittedData r = [] \<and> fr_residuals r = [] \<and> fr_components r = []
      \<and> fr_baseline r = [] \<and> fr_baselineCorrectedData r = []
      \<and> fr_rSquared r = Fin 0 \<and> fr_adjustedRSquared r = Fin 0 \<and> fr_rmse r = Fin 0
      \<and> fr_chiSquared r = Fin 0 \<and> fr_reducedChiSquared r = Fin 0
      \<and> fr_aic r = Fin 0 \<and> fr_bic r = Fin 0
      \<and> fr_parameters r = [\<lparr>pc_id = 1, pc_profile = Gaussian, pc_center = 1, pc_amplitude = 1,
                      pc_width = 1, pc_weight = 1, pc_sigma = None, pc_gamma = None\<rparr>]
      \<and> \<not> fr_converged r \<and> fr_iterations r = 0"
  using fitPeaks_degenerate
    [of "[]" "[\<lparr>pc_id = 1, pc_profile = Gaussian, pc_center = 1, pc_amplitude = 1,
                      pc_width = 1, pc_weight = 1, pc_sigma = None, pc_gamma = None\<rparr>]" "[]" None 200]
  by simp

text \<open>
  Claim C9, as amended. For a fit on non-empty data with at least one component, in every
  baseline mode, every returned component has width at least 0.01, amplitude at least 0 and
  weight 1. The clamping is applied once, when the final parameter vector of the optimizer
  is unpacked; the optimizer itself works on unclamped parameters.
\<close>

theorem fitPeaks_parameters_clamped:
  assumes "data \<noteq> []" and "components \<noteq> []"
  shows "\<exists>r lmResult. fitPeaks data components baseline bo maxIterations = Some r
           \<and> fitOptimize data components baseline bo maxIterations = Some lmResult
           \<and> fr_parameters r = unpackParams components (lmr_params lmResult)
           \<and> length (fr_parameters r) = length components
           \<and> (\<forall>c\<in>set (fr_parameters r).
                 1 / 100 \<le> pc_width c \<and> 0 \<le> pc_amplitude c \<and> pc_weight c = 1)"
proof -
  from fitPeaks_nonempty[OF assms] obtain lmResult ob bp
    where lm: "fitOptimize data components baseline bo maxIterations = Some lmResult"
      and r: "fitPeaks data components baseline bo maxIterations =
               Some (buildFitResult data components baseline (numBaselineParams bo) lmResult ob bp)"
    by blast
  let ?r = "buildFitResult data components baseline (numBaselineParams bo) lmResult ob bp"
  have p: "fr_parameters ?r = unpackParams components (lmr_params lmResult)"
    by (simp add: buildFitResult_def Let_def)
  have "\<forall>c\<in>set (fr_parameters ?r). 1 / 100 \<le> pc_width c \<and> 0 \<le> pc_amplitude c \<and> pc_weight c = 1"
    unfolding p using unpackParams_clamped by blast
  with lm r p show ?thesis by (auto simp: unpackParams_length)
qed





text \<open>
  One optimizer step, evaluated: the sample (1, -1) fitted with one Lorentzian of centre 0,
  amplitude 1 and width 2.
\<close>

lemma modelFunc_single_lorentzian:
  "modelFunc [\<lparr>pc_id = 1, pc_profile = Lorentzian, pc_center = 0, pc_amplitude = 1,
                        pc_width = 2, pc_weight = 1, pc_sigma = None, pc_gamma = None\<rparr>] None yVals
   = (\<lambda>x p. map (\<lambda>xi. 0 + lorentzian xi (p ! 0) (p ! 1) (p ! 2 / 2)) x)"
  by (intro ext) (simp add: modelFunc_def peakSum_def profileValue_def numeral_2_eq_2)

lemma packParams_single_lorentzian:
  "packParams [\<lparr>pc_id = 1, pc_profile = Lorentzian, pc_center = 0, pc_amplitude = 1,
                        pc_width = 2, pc_weight = 1, pc_sigma = None, pc_gamma = None\<rparr>] None = [0, 1, 2]"
  by (simp add: packParams_def initialBaselineParams_def)

lemma single_lorentzian_jacobian:
  "calculateJacobian [1] [0, 1, 2] (\<lambda>x p. map (\<lambda>xi. 0 + lorentzian xi (p ! 0) (p ! 1) (p ! 2 / 2)) x)
   = [[9999999950000000 / 19999999800000001, 1 / 2, 20000000050000000 / 80000000400000001]]"
  by code_simp

lemma single_lorentzian_system:
  "lmDampedSystem [1] (\<lambda>x p. map (\<lambda>xi. 0 + lorentzian xi (p ! 0) (p ! 1) (p ! 2 / 2)) x) [0, 1, 2] [- (3 / 2)] (1 / 1000)
   = Some ([[100099998999000002502500000000000 / 399999992000000079999999600000001, 4999999975000000
          / 19999999800000001, 199999999499999997500000000000000 /
          1599999992000000020000000200000001], [4999999975000000 / 19999999800000001, 1001 / 4000,
          10000000025000000 / 80000000400000001], [199999999499999997500000000000000 /
          1599999992000000020000000200000001, 10000000025000000 / 80000000400000001,
          400400002002000002502500000000000 / 6400000064000000320000000800000001]],
           [- (14999999925000000 / 19999999800000001), - (3 / 4), - (30000000075000000 /
           80000000400000001)])"
  unfolding lmDampedSystem_def Let_def single_lorentzian_jacobian by code_simp

lemma single_lorentzian_solve:
  "solveLinear [[100099998999000002502500000000000 / 399999992000000079999999600000001, 4999999975000000
     / 19999999800000001, 199999999499999997500000000000000 /
     1599999992000000020000000200000001], [4999999975000000 / 19999999800000001, 1001 / 4000,
     10000000025000000 / 80000000400000001], [199999999499999997500000000000000 /
     1599999992000000020000000200000001, 10000000025000000 / 80000000400000001,
     400400002002000002502500000000000 / 6400000064000000320000000800000001]]
     [- (14999999925000000 / 19999999800000001), - (3 / 4), - (30000000075000000 /
     80000000400000001)]
   = Some [- (59999999400000003 / 60019999699900000), - (3000 / 3001), - (240000001200000003 /
         120040000300100000)]"
  by (simp add: solveLinear_def slForwardStep_def findPivot_def swapRows_def eliminateRow_def
        slBackSubst_def Let_def upt_rec[of _ "numeral _"] upt_rec[of _ "Suc _"] eval_nat_numeral)

lemma single_lorentzian_initial:
  "lmInitialState [1] [- 1] [0, 1, 2] (\<lambda>x p. map (\<lambda>xi. 0 + lorentzian xi (p ! 0) (p ! 1) (p ! 2 / 2)) x) (1 / 1000)
   = \<lparr>lm_params = [0, 1, 2], lm_residuals = [- (3 / 2)], lm_chiSquared = 9 / 4,
      lm_lambda = 1 / 1000, lm_iterations = 0, lm_converged = False, lm_jacobianEvals = 0\<rparr>"
  by code_simp

lemma single_lorentzian_step:
  "lmIteration [1] [- 1] (\<lambda>x p. map (\<lambda>xi. 0 + lorentzian xi (p ! 0) (p ! 1) (p ! 2 / 2)) x) (1 / 10 ^ 8) 10 (1 / 10)
     \<lparr>lm_params = [0, 1, 2], lm_residuals = [- (3 / 2)], lm_chiSquared = 9 / 4,
      lm_lambda = 1 / 1000, lm_iterations = 0, lm_converged = False, lm_jacobianEvals = 0\<rparr>
   = Some (Continue
       \<lparr>lm_params = [- (59999999400000003 / 60019999699900000), 1 / 3001, 79999400199997 /
       120040000300100000], lm_residuals = [-
       (27666436332115162676620811315616701678279061716395335054 /
       27666436331859166517886401720416557662999301676396535045)], lm_chiSquared =
       765431699318981895945118024781475738157070823211426711255746627015705790379089673939905551637284675132921182916
       /
       765431699304816893091400378882644155410492579937827577510586227057079160446760001086941454826279710881913152025,
       lm_lambda = 1 / 10000, lm_iterations = 1, lm_converged = False, lm_jacobianEvals =
       1\<rparr>)"
  unfolding lmIteration_def Let_def LMState.simps single_lorentzian_system option.case prod.case
    single_lorentzian_solve
  by (simp add: lorentzian_def upt_rec[of _ "numeral _"] upt_rec[of _ "Suc _"] eval_nat_numeral)

text \<open>
  The first optimizer step of that fit is accepted and the loop continues with the new
  parameter vector, whose width entry is about 0.00067, below 0.01: nothing clamps the
  parameters between optimizer steps.
\<close>

theorem optimizer_step_unclamped_counterexample:
  "(case lmIteration [1] [- 1]
           (modelFunc [\<lparr>pc_id = 1, pc_profile = Lorentzian, pc_center = 0, pc_amplitude = 1,
                        pc_width = 2, pc_weight = 1, pc_sigma = None, pc_gamma = None\<rparr>] None [- 1])
           (1 / 10 ^ 8) 10 (1 / 10)
           (lmInitialState [1] [- 1]
              (packParams [\<lparr>pc_id = 1, pc_profile = Lorentzian, pc_center = 0, pc_amplitude = 1,
                        pc_width = 2, pc_weight = 1, pc_sigma = None, pc_gamma = None\<rparr>] None)
              (modelFunc [\<lparr>pc_id = 1, pc_profile = Lorentzian, pc_center = 0, pc_amplitude = 1,
                        pc_width = 2, pc_weight = 1, pc_sigma = None, pc_gamma = None\<rparr>] None [- 1])
              (1 / 1000)) of
      Some (Continue st1) \<Rightarrow> lm_params st1 ! 2 < 1 / 100
    | _ \<Rightarrow> False)"
  unfolding modelFunc_single_lorentzian packParams_single_lorentzian single_lorentzian_initial
    single_lorentzian_step
  by simp

text \<open>
  The same fit stopped after that first step: the optimizer returns the width entry below
  0.01 and the returned component has width 0.01.
\<close>

lemma single_lorentzian_one_iteration:
  "map_option lmr_params
     (levenbergMarquardt [1] [- 1] [0, 1, 2]
        (\<lambda>x p. map (\<lambda>xi. 0 + lorentzian xi (p ! 0) (p ! 1) (p ! 2 / 2)) x)
        \<lparr>lmo_maxIterations = Some 1, lmo_tolerance = Some (1 / 10 ^ 8),
         lmo_lambdaInit = None, lmo_lambdaUp = None, lmo_lambdaDown = None\<rparr>)
   = Some [- (59999999400000003 / 60019999699900000), 1 / 3001,
           79999400199997 / 120040000300100000]"
proof -
  have "levenbergMarquardt [1] [- 1] [0, 1, 2]
          (\<lambda>x p. map (\<lambda>xi. 0 + lorentzian xi (p ! 0) (p ! 1) (p ! 2 / 2)) x)
          \<lparr>lmo_maxIterations = Some 1, lmo_tolerance = Some (1 / 10 ^ 8),
           lmo_lambdaInit = None, lmo_lambdaUp = None, lmo_lambdaDown = None\<rparr>
        = (case lmLoop (lmIteration [1] [- 1]
                          (\<lambda>x p. map (\<lambda>xi. 0 + lorentzian xi (p ! 0) (p ! 1) (p ! 2 / 2)) x)
                          (1 / 10 ^ 8) 10 (1 / 10)) (Suc 0)
                  (lmInitialState [1] [- 1] [0, 1, 2]
                     (\<lambda>x p. map (\<lambda>xi. 0 + lorentzian xi (p ! 0) (p ! 1) (p ! 2 / 2)) x)
                     (1 / 1000)) of
             None \<Rightarrow> None
           | Some st \<Rightarrow>
               Some \<lparr>lmr_params = lm_params st, lmr_residuals = lm_residuals st,
                     lmr_chiSquared = lm_chiSquared st, lmr_iterations = lm_iterations st,
                     lmr_converged = lm_converged st\<rparr>)"
    unfolding levenbergMarquardt_def Let_def by (simp add: num_nullish_def)
  then show ?thesis
    unfolding lmLoop.simps single_lorentzian_initial single_lorentzian_step by simp
qed

lemma fitOptimize_single_lorentzian:
  "fitOptimize [\<lparr>pt_x = 1, pt_y = - 1\<rparr>]
     [\<lparr>pc_id = 1, pc_profile = Lorentzian, pc_center = 0, pc_amplitude = 1,
       pc_width = 2, pc_weight = 1, pc_sigma = None, pc_gamma = None\<rparr>] [] None 1
   = levenbergMarquardt [1] [- 1] [0, 1, 2]
        (\<lambda>x p. map (\<lambda>xi. 0 + lorentzian xi (p ! 0) (p ! 1) (p ! 2 / 2)) x)
        \<lparr>lmo_maxIterations = Some 1, lmo_tolerance = Some (1 / 10 ^ 8),
         lmo_lambdaInit = None, lmo_lambdaUp = None, lmo_lambdaDown = None\<rparr>"
  unfolding fitOptimize_def Let_def modelFunc_single_lorentzian packParams_single_lorentzian
  by (simp add: optimizeBaselineFlag_def baselineMapOf_def mapGetOr0_def)

text \<open>
  The theorem at two inputs. Two samples and one Lorentzian given with amplitude -3, width
  0.001 and weight 1/2, without optimizer iterations: the optimizer returns the packed
  vector (0, -3/2, 0.001) and the returned component has amplitude 0, width 0.01 and
  weight 1. The fit of the sample (1, -1) above, stopped after its first step: the
  optimizer returns a width of about 0.00067 and the returned component has width 0.01.
\<close>

theorem fitPeaks_parameters_clamped_witness:
  "(\<exists>r lmResult.
      fitPeaks [\<lparr>pt_x = 0, pt_y = 0\<rparr>, \<lparr>pt_x = 1, pt_y = 1\<rparr>]
         [\<lparr>pc_id = 1, pc_profile = Lorentzian, pc_center = 0, pc_amplitude = - 3,
          pc_width = 1 / 1000, pc_weight = 1 / 2, pc_sigma = None, pc_gamma = None\<rparr>] [] None 0 = Some r
      \<and> fitOptimize [\<lparr>pt_x = 0, pt_y = 0\<rparr>, \<lparr>pt_x = 1, pt_y = 1\<rparr>]
         [\<lparr>pc_id = 1, pc_profile = Lorentzian, pc_center = 0, pc_amplitude = - 3,
          pc_width = 1 / 1000, pc_weight = 1 / 2, pc_sigma = None, pc_gamma = None\<rparr>] [] None 0 = Some lmResult
      \<and> fr_parameters r = unpackParams [\<lparr>pc_id = 1, pc_profile = Lorentzian, pc_center = 0, pc_amplitude = - 3,
          pc_width = 1 / 1000, pc_weight = 1 / 2, pc_sigma = None, pc_gamma = None\<rparr>] (lmr_params lmResult)
      \<and> length (fr_parameters r) = length [\<lparr>pc_id = 1, pc_profile = Lorentzian, pc_center = 0, pc_amplitude = - 3,
          pc_width = 1 / 1000, pc_weight = 1 / 2, pc_sigma = None, pc_gamma = None\<rparr>]
      \<and> (\<forall>c\<in>set (fr_parameters r).
             1 / 100 \<le> pc_width c \<and> 0 \<le> pc_amplitude c \<and> pc_weight c = 1)
      \<and> lmr_params lmResult = [0, - 3 / 2, 1 / 1000]
      \<and> fr_parameters r = [\<lparr>pc_id = 1, pc_profile = Lorentzian, pc_center = 0, pc_amplitude = 0,
          pc_width = 1 / 100, pc_weight = 1, pc_sigma = None, pc_gamma = None\<rparr>])
   \<and> (\<exists>r lmResult.
      fitPeaks [\<lparr>pt_x = 1, pt_y = - 1\<rparr>]
        [\<lparr>pc_id = 1, pc_profile = Lorentzian, pc_center = 0, pc_amplitude = 1,
          pc_width = 2, pc_weight = 1, pc_sigma = None, pc_gamma = None\<rparr>] [] None 1 = Some r
      \<and> fitOptimize [\<lparr>pt_x = 1, pt_y = - 1\<rparr>]
        [\<lparr>pc_id = 1, pc_profile = Lorentzian, pc_center = 0, pc_amplitude = 1,
          pc_width = 2, pc_weight = 1, pc_sigma = None, pc_gamma = None\<rparr>] [] None 1 = Some lmResult
      \<and> (\<forall>c\<in>set (fr_parameters r).
             1 / 100 \<le> pc_width c \<and> 0 \<le> pc_amplitude c \<and> pc_weight c = 1)
      \<and> lmr_params lmResult = [- (59999999400000003 / 60019999699900000), 1 / 3001,
                                 79999400199997 / 120040000300100000]
      \<and> fr_parameters r =
          [\<lparr>pc_id = 1, pc_profile = Lorentzian,
            pc_center = - (59999999400000003 / 60019999699900000), pc_amplitude = 1 / 3001,
            pc_width = 1 / 100, pc_weight = 1, pc_sigma = None, pc_gamma = None\<rparr>])"
proof -
  let ?data = "[\<lparr>pt_x = 0, pt_y = 0\<rparr>, \<lparr>pt_x = 1, pt_y = 1\<rparr>]"
  let ?comps = "[\<lparr>pc_id = 1, pc_profile = Lorentzian, pc_center = 0, pc_amplitude = - 3,
          pc_width = 1 / 1000, pc_weight = 1 / 2, pc_sigma = None, pc_gamma = None\<rparr>]"
  from fitPeaks_parameters_clamped[of ?data ?comps "[]" None 0]
  obtain r lmResult
    where r: "fitPeaks ?data ?comps [] None 0 = Some r"
      and lm: "fitOptimize ?data ?comps [] None 0 = Some lmResult"
      and p: "fr_parameters r = unpackParams ?comps (lmr_params lmResult)"
      and len: "length (fr_parameters r) = length ?comps"
      and cl: "\<forall>c\<in>set (fr_parameters r).
                 1 / 100 \<le> pc_width c \<and> 0 \<le> pc_amplitude c \<and> pc_weight c = 1"
    by auto
  from fitOptimize_without_iterations[of ?data ?comps "[]" None] lm
  have v: "lmr_params lmResult = [0, - 3 / 2, 1 / 1000]"
    by (simp add: packParams_def initialBaselineParams_def)
  have "fr_parameters r = [\<lparr>pc_id = 1, pc_profile = Lorentzian, pc_center = 0, pc_amplitude = 0,
          pc_width = 1 / 100, pc_weight = 1, pc_sigma = None, pc_gamma = None\<rparr>]"
    unfolding p v by (simp add: unpackParams_def)
  with r lm p len cl v have one: "\<exists>r lmResult.
      fitPeaks ?data ?comps [] None 0 = Some r
      \<and> fitOptimize ?data ?comps [] None 0 = Some lmResult
      \<and> fr_parameters r = unpackParams ?comps (lmr_params lmResult)
      \<and> length (fr_parameters r) = length ?comps
      \<and> (\<forall>c\<in>set (fr_parameters r).
             1 / 100 \<le> pc_width c \<and> 0 \<le> pc_amplitude c \<and> pc_weight c = 1)
      \<and> lmr_params lmResult = [0, - 3 / 2, 1 / 1000]
      \<and> fr_parameters r = [\<lparr>pc_id = 1, pc_profile = Lorentzian, pc_center = 0, pc_amplitude = 0,
          pc_width = 1 / 100, pc_weight = 1, pc_sigma = None, pc_gamma = None\<rparr>]"
    by blast
  let ?data1 = "[\<lparr>pt_x = 1, pt_y = - 1\<rparr>]"
  let ?comps1 = "[\<lparr>pc_id = 1, pc_profile = Lorentzian, pc_center = 0, pc_amplitude = 1,
          pc_width = 2, pc_weight = 1, pc_sigma = None, pc_gamma = None\<rparr>]"
  from fitPeaks_parameters_clamped[of ?data1 ?comps1 "[]" None 1]
  obtain r1 lmResult1
    where r1: "fitPeaks ?data1 ?comps1 [] None 1 = Some r1"
      and lm1: "fitOptimize ?data1 ?comps1 [] None 1 = Some lmResult1"
      and p1: "fr_parameters r1 = unpackParams ?comps1 (lmr_params lmResult1)"
      and cl1: "\<forall>c\<in>set (fr_parameters r1).
                 1 / 100 \<le> pc_width c \<and> 0 \<le> pc_amplitude c \<and> pc_weight c = 1"
    by auto
  from single_lorentzian_one_iteration lm1
  have v1: "lmr_params lmResult1 = [- (59999999400000003 / 60019999699900000), 1 / 3001,
                                     79999400199997 / 120040000300100000]"
    unfolding fitOptimize_single_lorentzian[symmetric] by simp
  have "fr_parameters r1 =
          [\<lparr>pc_id = 1, pc_profile = Lorentzian,
            pc_center = - (59999999400000003 / 60019999699900000), pc_amplitude = 1 / 3001,
            pc_width = 1 / 100, pc_weight = 1, pc_sigma = None, pc_gamma = None\<rparr>]"
    unfolding p1 v1 by (simp add: unpackParams_def)
  with r1 lm1 cl1 v1 have two: "\<exists>r lmResult.
      fitPeaks ?data1 ?comps1 [] None 1 = Some r
      \<and> fitOptimize ?data1 ?comps1 [] None 1 = Some lmResult
      \<and> (\<forall>c\<in>set (fr_parameters r).
             1 / 100 \<le> pc_width c \<and> 0 \<le> pc_amplitude c \<and> pc_weight c = 1)
      \<and> lmr_params lmResult = [- (59999999400000003 / 60019999699900000), 1 / 3001,
                                 79999400199997 / 120040000300100000]
      \<and> fr_parameters r =
          [\<lparr>pc_id = 1, pc_profile = Lorentzian,
            pc_center = - (59999999400000003 / 60019999699900000), pc_amplitude = 1 / 3001,
            pc_width = 1 / 100, pc_weight = 1, pc_sigma = None, pc_gamma = None\<rparr>]"
    by blast
  from one two show ?thesis by (rule conjI)
qed

end
